theory Spec2Isabelle
  imports Complex_Main
begin

section \<open>JavaScript values\<close>

text \<open>
  The two route modules (\<^verbatim>\<open>app/routes/app._index.jsx\<close> and
  \<^verbatim>\<open>app/routes/app.export-menu[.json].js\<close>) work on decoded JSON: the bodies of
  Admin API responses and the parsed content of an uploaded file. A JavaScript string is
  its sequence of UTF-16 code units, each a natural number; \<open>js\<close> turns a literal of
  the source into that sequence.
\<close>

type_synonym jsstring = "nat list"

definition js :: "string \<Rightarrow> jsstring" where
  "js s = map of_char s"

text \<open>
  A number is \<open>NaN\<close>, an infinity, or a finite value (both zeros are \<open>Fin 0\<close>: the
  program never tells them apart). An object is the list of its own properties in
  insertion order, looked up with \<open>map_of\<close>.
\<close>

datatype jsnum = NaN | Fin rat | PosInf | NegInf

datatype jsval =
    Undefined
  | Null
  | Bool bool
  | Num jsnum
  | Str jsstring
  | Arr "jsval list"
  | Obj "(jsstring \<times> jsval) list"

text \<open>
  What a \<^verbatim>\<open>throw\<close> carries: a \<^verbatim>\<open>TypeError\<close> of the engine with its message, any
  other error object with its message, or a \<^verbatim>\<open>Response\<close> (the redirect that the
  authentication helper throws).
\<close>

datatype thrown = TypeError jsstring | HostError jsstring | HttpResponse

text \<open>\<^verbatim>\<open>!!v\<close>\<close>

fun truthy :: "jsval \<Rightarrow> bool" where
  "truthy Undefined = False"
| "truthy Null = False"
| "truthy (Bool b) = b"
| "truthy (Num n) = (n \<noteq> NaN \<and> n \<noteq> Fin 0)"
| "truthy (Str s) = (s \<noteq> [])"
| "truthy (Arr xs) = True"
| "truthy (Obj kv) = True"

text \<open>
  \<^verbatim>\<open>v.k\<close> for a \<open>v\<close> that is neither \<^verbatim>\<open>null\<close> nor \<^verbatim>\<open>undefined\<close> (there the
  read throws, which each caller below writes out), and for the property names this
  program reads: none of them is an index, and none is inherited from a prototype
  except \<^verbatim>\<open>length\<close>.
\<close>

fun js_get :: "jsval \<Rightarrow> jsstring \<Rightarrow> jsval" where
  "js_get (Obj kv) k = (case map_of kv k of None \<Rightarrow> Undefined | Some v \<Rightarrow> v)"
| "js_get (Arr xs) k = (if k = js ''length'' then Num (Fin (of_nat (length xs))) else Undefined)"
| "js_get (Str s) k = (if k = js ''length'' then Num (Fin (of_nat (length s))) else Undefined)"
| "js_get v k = Undefined"

text \<open>The own property \<open>k\<close> of an object, \<open>None\<close> when the object has no such field.\<close>

definition own_field :: "jsval \<Rightarrow> jsstring \<Rightarrow> jsval option" where
  "own_field v k = (case v of Obj kv \<Rightarrow> map_of kv k | _ \<Rightarrow> None)"

text \<open>
  \<^verbatim>\<open>v > 0\<close> converts \<open>v\<close> to a number first. The conversion of a string, an array or
  an object (\<^verbatim>\<open>ToPrimitive\<close>, then the numeric string grammar) belongs to the engine
  and is the parameter \<open>tn\<close> of the model; it may throw.
\<close>

fun to_number :: "(jsval \<Rightarrow> thrown + jsnum) \<Rightarrow> jsval \<Rightarrow> thrown + jsnum" where
  "to_number tn Undefined = Inr NaN"
| "to_number tn Null = Inr (Fin 0)"
| "to_number tn (Bool b) = Inr (Fin (if b then 1 else 0))"
| "to_number tn (Num n) = Inr n"
| "to_number tn v = tn v"

fun positive :: "jsnum \<Rightarrow> bool" where
  "positive (Fin q) = (0 < q)"
| "positive PosInf = True"
| "positive n = False"

definition gt_zero :: "(jsval \<Rightarrow> thrown + jsnum) \<Rightarrow> jsval \<Rightarrow> thrown + bool" where
  "gt_zero tn v = (case to_number tn v of Inl e \<Rightarrow> Inl e | Inr n \<Rightarrow> Inr (positive n))"

text \<open>The message of the \<^verbatim>\<open>TypeError\<close> that Node.js raises for \<^verbatim>\<open>v.k\<close> on a nullish \<open>v\<close>.\<close>

fun cannot_read :: "jsval \<Rightarrow> string \<Rightarrow> jsstring" where
  "cannot_read Null k =
     js (''Cannot read properties of null (reading '' @ [CHR 0x27] @ k @ [CHR 0x27] @ '')'')"
| "cannot_read v k =
     js (''Cannot read properties of undefined (reading '' @ [CHR 0x27] @ k @ [CHR 0x27] @ '')'')"

text \<open>\<^verbatim>\<open>Array.prototype.map\<close> with a callback that may throw: the first throw ends the loop.\<close>

fun map_result :: "('a \<Rightarrow> 'e + 'b) \<Rightarrow> 'a list \<Rightarrow> 'e + 'b list" where
  "map_result f [] = Inr []"
| "map_result f (x # xs) =
     (case f x of
        Inl e \<Rightarrow> Inl e
      | Inr y \<Rightarrow> (case map_result f xs of Inl e \<Rightarrow> Inl e | Inr ys \<Rightarrow> Inr (y # ys)))"

lemma map_result_cong [fundef_cong]:
  "xs = ys \<Longrightarrow> (\<And>x. x \<in> set ys \<Longrightarrow> f x = g x) \<Longrightarrow> map_result f xs = map_result g ys"
  by (induction ys arbitrary: xs) (auto split: sum.splits)

lemma js_eq_iff [simp]: "js a = js b \<longleftrightarrow> a = b"
proof -
  have "inj (of_char :: char \<Rightarrow> nat)"
    by (rule injI) simp
  then have "inj (map (of_char :: char \<Rightarrow> nat))"
    by simp
  then show ?thesis
    unfolding js_def by (auto dest: injD)
qed

lemma js_Nil_iff [simp]: "js s = [] \<longleftrightarrow> s = []"
  by (simp add: js_def)

lemma js_append: "js (s @ t) = js s @ js t"
  by (simp add: js_def)

lemma size_map_of:
  "map_of kv k = Some v \<Longrightarrow> size v < Suc (size_list (size_prod (\<lambda>x. 0) size) kv)"
  by (induction kv) (auto split: if_splits)

lemma size_elem: "x \<in> set xs \<Longrightarrow> size x < Suc (size_list size xs)"
  by (induction xs) auto

lemma size_js_get_items:
  "truthy (js_get item (js ''items'')) \<Longrightarrow> size (js_get item (js ''items'')) < size item"
  by (cases item) (auto split: option.splits dest: size_map_of)

lemma size_own_field: "own_field v k = Some c \<Longrightarrow> size c < size v"
  by (cases v) (auto simp: own_field_def dest: size_map_of)


section \<open>The menu tree normalizer\<close>

text \<open>
  \<^verbatim>\<open>prepareMenuItemsForCreate\<close>, defined with the same text in both route modules.
  \<open>prepareItem\<close> is the arrow function it maps over the array. The model follows the
  source on every value: where the source throws (\<^verbatim>\<open>items.map\<close> on a value that is
  not an array, \<^verbatim>\<open>item.title\<close> on \<^verbatim>\<open>null\<close>), the model returns \<open>Inl\<close>.
\<close>

function prepareMenuItemsForCreate :: "(jsval \<Rightarrow> thrown + jsnum) \<Rightarrow> jsval \<Rightarrow> thrown + jsval"
  and prepareItem :: "(jsval \<Rightarrow> thrown + jsnum) \<Rightarrow> jsval \<Rightarrow> thrown + jsval"
where
  "prepareMenuItemsForCreate tn items =
     (if \<not> truthy items \<or> js_get items (js ''length'') = Num (Fin 0) then Inr (Arr [])
      else case items of
             Arr xs \<Rightarrow> (case map_result (prepareItem tn) xs of
                          Inl e \<Rightarrow> Inl e
                        | Inr ys \<Rightarrow> Inr (Arr ys))
           | _ \<Rightarrow> Inl (TypeError (js ''items.map is not a function'')))"
| "prepareItem tn item =
     (if item = Null \<or> item = Undefined then Inl (TypeError (cannot_read item ''title''))
      else
        let newItem = [(js ''title'', js_get item (js ''title'')),
                       (js ''url'', js_get item (js ''url'')),
                       (js ''type'', js_get item (js ''type''))];
            newItem = (if truthy (js_get item (js ''resourceId''))
                       then newItem @ [(js ''resourceId'', js_get item (js ''resourceId''))]
                       else newItem)
        in if truthy (js_get item (js ''items'')) then
             (case gt_zero tn (js_get (js_get item (js ''items'')) (js ''length'')) of
                Inl e \<Rightarrow> Inl e
              | Inr False \<Rightarrow> Inr (Obj newItem)
              | Inr True \<Rightarrow>
                  (case prepareMenuItemsForCreate tn (js_get item (js ''items'')) of
                     Inl e \<Rightarrow> Inl e
                   | Inr v \<Rightarrow> Inr (Obj (newItem @ [(js ''items'', v)]))))
           else Inr (Obj newItem))"
  by pat_completeness auto
termination
proof (relation "measure (\<lambda>c. case c of Inl (tn, v) \<Rightarrow> size v | Inr (tn, v) \<Rightarrow> size v)", goal_cases)
  case 1
  show ?case by simp
next
  case (2 tn items xs x)
  then show ?case by (simp add: size_elem)
next
  case (3 tn item)
  then show ?case by (simp add: size_js_get_items)
qed

declare prepareMenuItemsForCreate.simps [simp del] prepareItem.simps [simp del]


section \<open>The input and output shapes of the normalizer\<close>

text \<open>
  The raw item trees of the data model: an array of records, where the \<^verbatim>\<open>items\<close>
  field of a record is absent, \<^verbatim>\<open>null\<close>, or again such an array. Nothing is asked of
  the other fields, and extra fields are allowed.
\<close>

function item_records :: "jsval \<Rightarrow> bool"
  and item_record :: "jsval \<Rightarrow> bool"
where
  "item_records v = (case v of Arr xs \<Rightarrow> list_all item_record xs | _ \<Rightarrow> False)"
| "item_record v =
     (case v of
        Obj kv \<Rightarrow> (case map_of kv (js ''items'') of
                     None \<Rightarrow> True
                   | Some c \<Rightarrow> c = Null \<or> item_records c)
      | _ \<Rightarrow> False)"
  by pat_completeness auto
termination
proof (relation "measure (\<lambda>c. case c of Inl v \<Rightarrow> size v | Inr v \<Rightarrow> size v)", goal_cases)
  case 1
  show ?case by simp
next
  case (2 v xs x)
  then show ?case by (simp add: size_elem)
next
  case (3 v kv c)
  then show ?case by (simp add: size_map_of)
qed

declare item_records.simps [simp del] item_record.simps [simp del]

text \<open>
  The field contract of a sanitized tree: every record, at every depth, has no field
  outside \<open>menu_fields\<close>.
\<close>

definition menu_fields :: "jsstring list" where
  "menu_fields = [js ''title'', js ''url'', js ''type'', js ''resourceId'', js ''items'']"

function only_menu_fields :: "jsval \<Rightarrow> bool"
  and only_menu_fields_item :: "jsval \<Rightarrow> bool"
where
  "only_menu_fields v = (case v of Arr ys \<Rightarrow> list_all only_menu_fields_item ys | _ \<Rightarrow> False)"
| "only_menu_fields_item v =
     (case v of
        Obj kv \<Rightarrow> list_all (\<lambda>k. k \<in> set menu_fields) (map fst kv) \<and>
                  (case map_of kv (js ''items'') of
                     None \<Rightarrow> True
                   | Some c \<Rightarrow> only_menu_fields c)
      | _ \<Rightarrow> False)"
  by pat_completeness auto
termination
proof (relation "measure (\<lambda>c. case c of Inl v \<Rightarrow> size v | Inr v \<Rightarrow> size v)", goal_cases)
  case 1
  show ?case by simp
next
  case (2 v ys y)
  then show ?case by (simp add: size_elem)
next
  case (3 v kv c)
  then show ?case by (simp add: size_map_of)
qed

declare only_menu_fields.simps [simp del] only_menu_fields_item.simps [simp del]

text \<open>
  \<open>forwarded v out\<close>: the output \<open>out\<close> pairs off with the input \<open>v\<close>, item by item
  and in the same order, down through every \<^verbatim>\<open>items\<close> field the output has, and each
  output item has the \<^verbatim>\<open>title\<close>, \<^verbatim>\<open>url\<close> and \<^verbatim>\<open>type\<close> of its input item. An
  input that is not an array pairs off with the empty array only.
\<close>

declare list.rel_cong [fundef_cong]

function forwarded :: "jsval \<Rightarrow> jsval \<Rightarrow> bool"
  and forwarded_item :: "jsval \<Rightarrow> jsval \<Rightarrow> bool"
where
  "forwarded v out =
     (case out of
        Arr ys \<Rightarrow> (case v of Arr xs \<Rightarrow> list_all2 forwarded_item xs ys | _ \<Rightarrow> ys = [])
      | _ \<Rightarrow> False)"
| "forwarded_item x y =
     (js_get y (js ''title'') = js_get x (js ''title'') \<and>
      js_get y (js ''url'') = js_get x (js ''url'') \<and>
      js_get y (js ''type'') = js_get x (js ''type'') \<and>
      (case own_field y (js ''items'') of
         None \<Rightarrow> True
       | Some c \<Rightarrow> forwarded (js_get x (js ''items'')) c))"
  by pat_completeness auto
termination
proof (relation "measure (\<lambda>c. case c of Inl (v, out) \<Rightarrow> size out | Inr (x, y) \<Rightarrow> size y)", goal_cases)
  case 1
  show ?case by simp
next
  case (2 v out ys xs x y)
  then show ?case by (simp add: size_elem)
next
  case (3 x y c)
  then show ?case by (simp add: size_own_field)
qed

declare forwarded.simps [simp del] forwarded_item.simps [simp del]


section \<open>Strings of the handlers\<close>

text \<open>
  The code units that \<^verbatim>\<open>String.prototype.trim\<close> strips and that \<^verbatim>\<open>\s\<close> matches
  (white space and line terminators), and the ones that \<^verbatim>\<open>\w\<close> matches.
\<close>

definition is_space :: "nat \<Rightarrow> bool" where
  "is_space c \<longleftrightarrow>
     c \<in> {0x9, 0xA, 0xB, 0xC, 0xD, 0x20, 0xA0, 0x1680, 0x2028, 0x2029, 0x202F, 0x205F,
           0x3000, 0xFEFF} \<or> (0x2000 \<le> c \<and> c \<le> 0x200A)"

definition is_word :: "nat \<Rightarrow> bool" where
  "is_word c \<longleftrightarrow> (0x30 \<le> c \<and> c \<le> 0x39) \<or> (0x41 \<le> c \<and> c \<le> 0x5A) \<or> c = 0x5F \<or>
     (0x61 \<le> c \<and> c \<le> 0x7A)"

definition trim :: "jsstring \<Rightarrow> jsstring" where
  "trim s = rev (dropWhile is_space (rev (dropWhile is_space s)))"

text \<open>
  \<^verbatim>\<open>s.replace(/[...]+/g, r)\<close> for a character class \<open>p\<close>: every maximal run of
  code units in the class is replaced by \<open>r\<close>.
\<close>

function replace_runs :: "(nat \<Rightarrow> bool) \<Rightarrow> jsstring \<Rightarrow> jsstring \<Rightarrow> jsstring" where
  "replace_runs p r [] = []"
| "replace_runs p r (c # cs) =
     (if p c then r @ replace_runs p r (dropWhile p cs) else c # replace_runs p r cs)"
  by pat_completeness auto
termination
  by (relation "measure (\<lambda>(p, r, s). length s)")
    (auto simp: length_dropWhile_le less_Suc_eq_le)

text \<open>
  The part of the handle before the random suffix:
  \<^verbatim>\<open>newMenuTitle.toLowerCase().replace(/\s+/g, "-").replace(/[^\w-]+/g, "")\<close>.
  \<open>lower\<close> is \<^verbatim>\<open>String.prototype.toLowerCase\<close>, a parameter: it is the engine's
  Unicode case mapping.
\<close>

definition slug :: "(jsstring \<Rightarrow> jsstring) \<Rightarrow> jsstring \<Rightarrow> jsstring" where
  "slug lower title =
     replace_runs (\<lambda>c. \<not> (is_word c \<or> c = 0x2D)) []
       (replace_runs is_space (js ''-'') (lower title))"


section \<open>The request handlers\<close>

text \<open>
  An entry of a \<^verbatim>\<open>FormData\<close> is a string or a file; of a file the handlers read its
  \<^verbatim>\<open>size\<close> and its \<^verbatim>\<open>text()\<close>. \<^verbatim>\<open>formData.get(k)\<close> is \<open>map_of\<close>: the first
  entry named \<open>k\<close>, \<^verbatim>\<open>null\<close> when there is none.
\<close>

datatype form_value = FormText jsstring | FormFile nat jsstring

type_synonym form_data = "(jsstring \<times> form_value) list"

text \<open>
  The requests sent with \<^verbatim>\<open>admin.graphql\<close>: the query of the duplicate flow
  (\<^verbatim>\<open>GET_MENU_DETAILS_QUERY_ACTION\<close>, with its \<^verbatim>\<open>id\<close>), the query of the export
  endpoint (\<^verbatim>\<open>GET_MENU_DETAILS_QUERY\<close>), and \<^verbatim>\<open>CREATE_MENU_MUTATION\<close> with its
  \<^verbatim>\<open>title\<close>, \<^verbatim>\<open>handle\<close> and \<^verbatim>\<open>items\<close>.
\<close>

datatype gql_request =
    GetMenuDetailsAction form_value
  | GetMenuDetails jsstring
  | CreateMenu jsstring jsstring jsval

text \<open>
  \<^verbatim>\<open>authenticate.admin(request)\<close> throws, or gives a result whose \<^verbatim>\<open>admin\<close> is
  usable (present, with a \<^verbatim>\<open>graphql\<close> function) or not.
\<close>

datatype auth_result = AuthThrows thrown | AuthAdmin bool

text \<open>
  What a handler gets from outside during one request: the authentication result, the
  engine's number conversion, case mapping and \<^verbatim>\<open>JSON.parse\<close> (\<open>None\<close> for a
  \<^verbatim>\<open>SyntaxError\<close>), the Admin API (\<^verbatim>\<open>admin.graphql\<close> followed by
  \<^verbatim>\<open>response.json()\<close>: the decoded body, or a throw), and the value of
  \<^verbatim>\<open>Math.random().toString(36).substring(2, 8)\<close>.
\<close>

record env =
  authenticate :: auth_result
  tonum :: "jsval \<Rightarrow> thrown + jsnum"
  toLowerCase :: "jsstring \<Rightarrow> jsstring"
  json_parse :: "jsstring \<Rightarrow> jsval option"
  graphql :: "gql_request \<Rightarrow> thrown + jsval"
  random_suffix :: jsstring

text \<open>\<^verbatim>\<open>error.message\<close> of a caught value, \<^verbatim>\<open>a || b\<close>, and \<^verbatim>\<open>v?.k\<close>.\<close>

fun thrown_message :: "thrown \<Rightarrow> jsval" where
  "thrown_message (TypeError m) = Str m"
| "thrown_message (HostError m) = Str m"
| "thrown_message HttpResponse = Undefined"

definition js_or :: "jsval \<Rightarrow> jsval \<Rightarrow> jsval" where
  "js_or a b = (if truthy a then a else b)"

definition opt_get :: "jsval \<Rightarrow> jsstring \<Rightarrow> jsval" where
  "opt_get v k = (if v = Null \<or> v = Undefined then Undefined else js_get v k)"

text \<open>
  \<^verbatim>\<open>formData.get(k)?.toString().trim()\<close>: \<open>None\<close> is \<^verbatim>\<open>undefined\<close>. And \<^verbatim>\<open>!v\<close>
  for a form entry.
\<close>

fun trimmed_text :: "form_value option \<Rightarrow> jsstring option" where
  "trimmed_text None = None"
| "trimmed_text (Some (FormText s)) = Some (trim s)"
| "trimmed_text (Some (FormFile n s)) = Some (trim (js ''[object File]''))"

fun form_falsy :: "form_value option \<Rightarrow> bool" where
  "form_falsy None = True"
| "form_falsy (Some (FormText s)) = (s = [])"
| "form_falsy (Some (FormFile n s)) = False"

text \<open>
  The responses of the validation branches: of the two form checks, and of the two
  checks on the uploaded file.
\<close>

definition duplicate_form_error :: jsval where
  "duplicate_form_error =
     Obj [(js ''actionName'', Str (js ''duplicateMenu'')),
          (js ''success'', Bool False),
          (js ''errors'',
             Arr [Obj [(js ''field'', Arr [Str (js ''form'')]),
                       (js ''message'', Str (js ''Original menu and new title are required.''))]])]"

definition import_form_error :: jsval where
  "import_form_error =
     Obj [(js ''actionName'', Str (js ''importMenu'')),
          (js ''success'', Bool False),
          (js ''errors'',
             Arr [Obj [(js ''field'', Arr [Str (js ''form'')]),
                       (js ''message'',
                          Str (js ''New menu title and a valid JSON file are required.''))]])]"

definition invalid_json_error :: jsval where
  "invalid_json_error =
     Obj [(js ''actionName'', Str (js ''importMenu'')),
          (js ''success'', Bool False),
          (js ''errors'',
             Arr [Obj [(js ''field'', Arr [Str (js ''file'')]),
                       (js ''message'', Str (js ''Invalid JSON file.''))]])]"

definition items_not_found_error :: jsval where
  "items_not_found_error =
     Obj [(js ''actionName'', Str (js ''importMenu'')),
          (js ''success'', Bool False),
          (js ''errors'',
             Arr [Obj [(js ''field'', Arr [Str (js ''file'')]),
                       (js ''message'',
                          Str (js (''Invalid JSON: '' @ [CHR 0x27] @ ''items'' @ [CHR 0x27] @
                                   '' array not found.'')))]])]"

text \<open>The template literal that builds the handle, the same in both flows.\<close>

definition newMenuHandle :: "env \<Rightarrow> jsstring \<Rightarrow> jsstring" where
  "newMenuHandle e newMenuTitle = slug (toLowerCase e) newMenuTitle @ js ''-'' @ random_suffix e"

text \<open>
  The body of the \<^verbatim>\<open>try\<close> block of the duplicate flow. The result is what the block
  returns or throws, with the requests it sent, in order.
\<close>

definition duplicateMenu_try ::
  "env \<Rightarrow> form_value \<Rightarrow> jsstring \<Rightarrow> (thrown + jsval) \<times> gql_request list" where
  "duplicateMenu_try e originalMenuId newMenuTitle =
     (let q1 = GetMenuDetailsAction originalMenuId in
      case graphql e q1 of
        Inl err \<Rightarrow> (Inl err, [q1])
      | Inr menuDetailsJson \<Rightarrow>
          if menuDetailsJson = Null \<or> menuDetailsJson = Undefined
          then (Inl (TypeError (cannot_read menuDetailsJson ''errors'')), [q1])
          else if truthy (js_get menuDetailsJson (js ''errors'')) \<or>
                  \<not> truthy (opt_get (js_get menuDetailsJson (js ''data'')) (js ''menu''))
          then (Inr (Obj [(js ''actionName'', Str (js ''duplicateMenu'')),
                          (js ''success'', Bool False),
                          (js ''errors'',
                             js_or (js_get menuDetailsJson (js ''errors''))
                               (Arr [Obj [(js ''message'',
                                  Str (js ''Failed to fetch original menu details.''))]]))]),
                [q1])
          else
            let originalMenuData = js_get (js_get menuDetailsJson (js ''data'')) (js ''menu'') in
            case prepareMenuItemsForCreate (tonum e) (js_get originalMenuData (js ''items'')) of
              Inl err \<Rightarrow> (Inl err, [q1])
            | Inr preparedItems \<Rightarrow>
                let handle = newMenuHandle e newMenuTitle;
                    q2 = CreateMenu newMenuTitle handle preparedItems
                in case graphql e q2 of
                     Inl err \<Rightarrow> (Inl err, [q1, q2])
                   | Inr createResponseJson \<Rightarrow>
                       if createResponseJson = Null \<or> createResponseJson = Undefined
                       then (Inl (TypeError (cannot_read createResponseJson ''data'')), [q1, q2])
                       else if truthy (opt_get (opt_get (opt_get
                                 (js_get createResponseJson (js ''data'')) (js ''menuCreate''))
                                 (js ''userErrors'')) (js ''length''))
                       then (Inr (Obj [(js ''actionName'', Str (js ''duplicateMenu'')),
                                       (js ''success'', Bool False),
                                       (js ''errors'',
                                          js_get (js_get (js_get createResponseJson (js ''data''))
                                            (js ''menuCreate'')) (js ''userErrors''))]),
                             [q1, q2])
                       else if truthy (js_get createResponseJson (js ''errors'')) \<or>
                               \<not> truthy (opt_get (opt_get
                                   (js_get createResponseJson (js ''data'')) (js ''menuCreate''))
                                   (js ''menu''))
                       then (Inr (Obj [(js ''actionName'', Str (js ''duplicateMenu'')),
                                       (js ''success'', Bool False),
                                       (js ''errors'',
                                          js_or (js_get createResponseJson (js ''errors''))
                                            (Arr [Obj [(js ''message'',
                                               Str (js ''Failed to create new menu.''))]]))]),
                             [q1, q2])
                       else (Inr (Obj [(js ''actionName'', Str (js ''duplicateMenu'')),
                                       (js ''success'', Bool True),
                                       (js ''createdMenu'',
                                          js_get (js_get (js_get createResponseJson (js ''data''))
                                            (js ''menuCreate'')) (js ''menu'')),
                                       (js ''message'',
                                          Str (js ''Menu \"'' @ newMenuTitle @
                                               js ''\" duplicated successfully! New handle: '' @
                                               handle))]),
                             [q1, q2]))"

text \<open>The \<^verbatim>\<open>duplicateMenu\<close> branch: validation, then the \<^verbatim>\<open>try\<close> block with its \<^verbatim>\<open>catch\<close>.\<close>

definition duplicateMenu :: "env \<Rightarrow> form_data \<Rightarrow> jsval \<times> gql_request list" where
  "duplicateMenu e formData =
     (let originalMenuId = map_of formData (js ''originalMenuId'');
          newMenuTitle = trimmed_text (map_of formData (js ''newMenuTitle''))
      in case (originalMenuId, newMenuTitle) of
           (Some menuId, Some title) \<Rightarrow>
             if form_falsy originalMenuId \<or> title = []
             then (duplicate_form_error, [])
             else (case duplicateMenu_try e menuId title of
                     (Inr response, sent) \<Rightarrow> (response, sent)
                   | (Inl err, sent) \<Rightarrow>
                       (Obj [(js ''actionName'', Str (js ''duplicateMenu'')),
                             (js ''success'', Bool False),
                             (js ''errors'',
                                Arr [Obj [(js ''message'',
                                   js_or (thrown_message err)
                                     (Str (js ''An unexpected error occurred.'')))]])],
                        sent))
         | _ \<Rightarrow>
             (duplicate_form_error, []))"

text \<open>The body of the \<^verbatim>\<open>try\<close> block of the import flow.\<close>

definition importMenu_try ::
  "env \<Rightarrow> jsstring \<Rightarrow> jsstring \<Rightarrow> (thrown + jsval) \<times> gql_request list" where
  "importMenu_try e fileContent newMenuTitle =
     (case json_parse e fileContent of
        None \<Rightarrow>
          (Inr invalid_json_error, [])
      | Some importedData \<Rightarrow>
          if importedData = Null \<or> importedData = Undefined
          then (Inl (TypeError (cannot_read importedData ''items'')), [])
          else
            let itemsToImport = js_get importedData (js ''items'') in
            case itemsToImport of
              Arr xs \<Rightarrow>
                (case prepareMenuItemsForCreate (tonum e) itemsToImport of
                   Inl err \<Rightarrow> (Inl err, [])
                 | Inr preparedImportedItems \<Rightarrow>
                     let handle = newMenuHandle e newMenuTitle;
                         q = CreateMenu newMenuTitle handle preparedImportedItems
                     in case graphql e q of
                          Inl err \<Rightarrow> (Inl err, [q])
                        | Inr createResponseJson \<Rightarrow>
                            if createResponseJson = Null \<or> createResponseJson = Undefined
                            then (Inl (TypeError (cannot_read createResponseJson ''data'')), [q])
                            else if truthy (opt_get (opt_get (opt_get
                                      (js_get createResponseJson (js ''data'')) (js ''menuCreate''))
                                      (js ''userErrors'')) (js ''length''))
                            then (Inr (Obj [(js ''actionName'', Str (js ''importMenu'')),
                                            (js ''success'', Bool False),
                                            (js ''errors'',
                                               js_get (js_get (js_get createResponseJson
                                                 (js ''data'')) (js ''menuCreate''))
                                                 (js ''userErrors''))]),
                                  [q])
                            else if truthy (js_get createResponseJson (js ''errors'')) \<or>
                                    \<not> truthy (opt_get (opt_get
                                        (js_get createResponseJson (js ''data''))
                                        (js ''menuCreate'')) (js ''menu''))
                            then (Inr (Obj [(js ''actionName'', Str (js ''importMenu'')),
                                            (js ''success'', Bool False),
                                            (js ''errors'',
                                               js_or (js_get createResponseJson (js ''errors''))
                                                 (Arr [Obj [(js ''message'',
                                                    Str (js ''Failed to create menu from import.''))]]))]),
                                  [q])
                            else (Inr (Obj [(js ''actionName'', Str (js ''importMenu'')),
                                            (js ''success'', Bool True),
                                            (js ''createdMenu'',
                                               js_get (js_get (js_get createResponseJson
                                                 (js ''data'')) (js ''menuCreate'')) (js ''menu'')),
                                            (js ''message'',
                                               Str (js ''Menu \"'' @ newMenuTitle @
                                                    js ''\" imported successfully!''))]),
                                  [q]))
            | _ \<Rightarrow>
                (Inr items_not_found_error, []))"

text \<open>The \<^verbatim>\<open>importMenu\<close> branch.\<close>

definition importMenu :: "env \<Rightarrow> form_data \<Rightarrow> jsval \<times> gql_request list" where
  "importMenu e formData =
     (let newMenuTitle = trimmed_text (map_of formData (js ''newImportMenuTitle''));
          uploadedFile = map_of formData (js ''menuFile'')
      in case (newMenuTitle, uploadedFile) of
           (Some title, Some (FormFile fileSize fileContent)) \<Rightarrow>
             if title = [] \<or> fileSize = 0
             then (import_form_error, [])
             else (case importMenu_try e fileContent title of
                     (Inr response, sent) \<Rightarrow> (response, sent)
                   | (Inl err, sent) \<Rightarrow>
                       (Obj [(js ''actionName'', Str (js ''importMenu'')),
                             (js ''success'', Bool False),
                             (js ''errors'',
                                Arr [Obj [(js ''message'',
                                   js_or (thrown_message err)
                                     (Str (js ''An unexpected error occurred during import.'')))]])],
                        sent))
         | _ \<Rightarrow>
             (import_form_error, []))"

text \<open>
  \<^verbatim>\<open>action\<close> of \<^verbatim>\<open>app._index.jsx\<close>, from the parsed form data on: the JSON value
  it responds with, or what it throws, and the requests it sent to the Admin API.
\<close>

definition action :: "env \<Rightarrow> form_data \<Rightarrow> (thrown + jsval) \<times> gql_request list" where
  "action e formData =
     (case authenticate e of
        AuthThrows err \<Rightarrow> (Inl err, [])
      | AuthAdmin usable \<Rightarrow>
          if \<not> usable
          then (Inr (Obj [(js ''success'', Bool False),
                          (js ''errors'',
                             Arr [Obj [(js ''message'',
                                Str (js ''Admin context not available for action.''))]])]),
                [])
          else
            let actionType = map_of formData (js ''_action'') in
            if actionType = Some (FormText (js ''duplicateMenu''))
            then (case duplicateMenu e formData of (response, sent) \<Rightarrow> (Inr response, sent))
            else if actionType = Some (FormText (js ''importMenu''))
            then (case importMenu e formData of (response, sent) \<Rightarrow> (Inr response, sent))
            else (Inr (Obj [(js ''success'', Bool False),
                            (js ''errors'',
                               Arr [Obj [(js ''message'', Str (js ''Invalid action.''))]])]),
                  []))"

text \<open>
  \<^verbatim>\<open>loader\<close> of \<^verbatim>\<open>app.export-menu[.json].js\<close>. \<open>menuId\<close> is
  \<^verbatim>\<open>url.searchParams.get("menuId")\<close>, \<open>None\<close> when the URL has no such parameter.
  The result is the status and the body of the response, or what the loader throws.
\<close>

definition export_loader ::
  "env \<Rightarrow> jsstring option \<Rightarrow> (thrown + nat \<times> jsval) \<times> gql_request list" where
  "export_loader e menuId =
     (case authenticate e of
        AuthThrows HttpResponse \<Rightarrow> (Inl HttpResponse, [])
      | AuthThrows err \<Rightarrow>
          (Inr (500, Obj [(js ''error'', Str (js ''Auth error'')),
                          (js ''details'', thrown_message err)]), [])
      | AuthAdmin usable \<Rightarrow>
          if \<not> usable
          then (Inr (500, Obj [(js ''error'', Str (js ''Admin context error'')),
                               (js ''details'',
                                  Str (js ''Admin object or graphql method is missing.''))]), [])
          else
            case menuId of
              None \<Rightarrow> (Inr (400, Obj [(js ''error'', Str (js ''Missing menuId parameter''))]), [])
            | Some mid \<Rightarrow>
                if mid = []
                then (Inr (400, Obj [(js ''error'', Str (js ''Missing menuId parameter''))]), [])
                else
                  let q = GetMenuDetails mid;
                      caught = (\<lambda>err. case err of
                                  HttpResponse \<Rightarrow> Inl HttpResponse
                                | _ \<Rightarrow>
                                    Inr (500, Obj [(js ''error'',
                                           Str (js ''Unexpected error during export data preparation'')),
                                         (js ''details'', thrown_message err)]))
                  in case graphql e q of
                       Inl err \<Rightarrow> (caught err, [q])
                     | Inr responseJson \<Rightarrow>
                         if responseJson = Null \<or> responseJson = Undefined
                         then (caught (TypeError (cannot_read responseJson ''errors'')), [q])
                         else if truthy (js_get responseJson (js ''errors'')) \<or>
                                 \<not> truthy (opt_get (js_get responseJson (js ''data'')) (js ''menu''))
                         then (Inr (500, Obj [(js ''error'', Str (js ''Failed to fetch menu details'')),
                                              (js ''details'',
                                                 js_or (js_get responseJson (js ''errors''))
                                                   (Str (js ''No menu data found.'')))]), [q])
                         else
                           let menuData = js_get (js_get responseJson (js ''data'')) (js ''menu'') in
                           case prepareMenuItemsForCreate (tonum e) (js_get menuData (js ''items'')) of
                             Inl err \<Rightarrow> (caught err, [q])
                           | Inr items \<Rightarrow>
                               (Inr (200, Obj [(js ''originalHandle'', js_get menuData (js ''handle'')),
                                               (js ''originalTitle'', js_get menuData (js ''title'')),
                                               (js ''items'', items)]), [q]))"

text \<open>
  The \<^verbatim>\<open>field\<close> tags of the error records of a response, one per record
  (\<open>Undefined\<close> for a record without the field).
\<close>

definition error_fields :: "jsval \<Rightarrow> jsval list" where
  "error_fields response =
     (case js_get response (js ''errors'') of
        Arr errs \<Rightarrow> map (\<lambda>err. js_get err (js ''field'')) errs
      | _ \<Rightarrow> [])"


section \<open>Example trees\<close>

text \<open>
  The trees of the specification's end-to-end scenarios: a top-level item with an empty
  \<^verbatim>\<open>resourceId\<close> and no children, and one with a resource, a child and the extra
  field \<^verbatim>\<open>id\<close> that the Admin API returns; each with its sanitized form.
\<close>

definition sale_item :: jsval where
  "sale_item = Obj [(js ''title'', Str (js ''Sale'')), (js ''url'', Str (js ''/sale'')),
                    (js ''type'', Str (js ''HTTP''))]"

definition home_raw :: jsval where
  "home_raw = Obj [(js ''title'', Str (js ''Home'')), (js ''url'', Str (js ''/'')),
                   (js ''type'', Str (js ''HTTP'')), (js ''resourceId'', Str []),
                   (js ''items'', Arr [])]"

definition home_clean :: jsval where
  "home_clean = Obj [(js ''title'', Str (js ''Home'')), (js ''url'', Str (js ''/'')),
                     (js ''type'', Str (js ''HTTP''))]"

definition shop_raw :: jsval where
  "shop_raw = Obj [(js ''id'', Str (js ''gid://shopify/MenuItem/7'')),
                   (js ''title'', Str (js ''Shop'')), (js ''url'', Str (js ''/collections/all'')),
                   (js ''type'', Str (js ''COLLECTION'')),
                   (js ''resourceId'', Str (js ''gid://123'')),
                   (js ''items'', Arr [sale_item])]"

definition shop_clean :: jsval where
  "shop_clean = Obj [(js ''title'', Str (js ''Shop'')), (js ''url'', Str (js ''/collections/all'')),
                     (js ''type'', Str (js ''COLLECTION'')),
                     (js ''resourceId'', Str (js ''gid://123'')),
                     (js ''items'', Arr [sale_item])]"

lemmas example_defs = sale_item_def home_raw_def home_clean_def shop_raw_def shop_clean_def

lemmas run_simps = prepareMenuItemsForCreate.simps prepareItem.simps Let_def

text \<open>
  An environment for the examples: authentication succeeds, \<^verbatim>\<open>toLowerCase\<close> is
  its restriction to ASCII, \<^verbatim>\<open>JSON.parse\<close> knows three file contents (every
  other content counts as malformed), the Admin
  API answers the menu query with a menu of one item and accepts every creation, and
  the random suffix is \<^verbatim>\<open>k3x9qz\<close>.
\<close>

definition ascii_lower :: "jsstring \<Rightarrow> jsstring" where
  "ascii_lower s = map (\<lambda>c. if 0x41 \<le> c \<and> c \<le> 0x5A then c + 0x20 else c) s"

definition demo_parse :: "jsstring \<Rightarrow> jsval option" where
  "demo_parse s =
     (if s = js ''null'' then Some Null
      else if s = js ''{\"items\":[]}'' then Some (Obj [(js ''items'', Arr [])])
      else if s = js ''{\"menu\":5}'' then Some (Obj [(js ''menu'', Num (Fin 5))])
      else None)"

definition demo_graphql :: "gql_request \<Rightarrow> thrown + jsval" where
  "demo_graphql q =
     (case q of
        CreateMenu t h i \<Rightarrow>
          Inr (Obj [(js ''data'', Obj [(js ''menuCreate'',
                 Obj [(js ''menu'', Obj [(js ''title'', Str t), (js ''handle'', Str h)]),
                      (js ''userErrors'', Arr [])])])])
      | _ \<Rightarrow> Inr (Obj [(js ''data'', Obj [(js ''menu'', Obj [(js ''items'', Arr [home_raw])])])]))"

definition demo_env :: env where
  "demo_env = \<lparr>authenticate = AuthAdmin True, tonum = (\<lambda>v. Inr NaN),
     toLowerCase = ascii_lower, json_parse = demo_parse, graphql = demo_graphql,
     random_suffix = js ''k3x9qz''\<rparr>"


section \<open>Properties of the normalizer\<close>

subsection \<open>Auxiliary facts\<close>

lemma gt_zero_Num [simp]: "gt_zero tn (Num n) = Inr (positive n)"
  by (simp add: gt_zero_def)

lemma prepare_Arr:
  "prepareMenuItemsForCreate tn (Arr xs) =
     (case map_result (prepareItem tn) xs of Inl e \<Rightarrow> Inl e | Inr ys \<Rightarrow> Inr (Arr ys))"
  by (cases xs) (simp_all add: prepareMenuItemsForCreate.simps)

lemma prepare_falsy: "\<not> truthy v \<Longrightarrow> prepareMenuItemsForCreate tn v = Inr (Arr [])"
  by (simp add: prepareMenuItemsForCreate.simps)

lemma map_result_Inr_iff:
  "map_result f xs = Inr ys \<longleftrightarrow> list_all2 (\<lambda>x y. f x = Inr y) xs ys"
proof
  show "map_result f xs = Inr ys \<Longrightarrow> list_all2 (\<lambda>x y. f x = Inr y) xs ys"
    by (induction xs arbitrary: ys) (auto split: sum.splits)
  show "list_all2 (\<lambda>x y. f x = Inr y) xs ys \<Longrightarrow> map_result f xs = Inr ys"
    by (induction rule: list_all2_induct) simp_all
qed

lemma map_result_total:
  "(\<And>x. x \<in> set xs \<Longrightarrow> \<exists>y. f x = Inr y) \<Longrightarrow> \<exists>ys. map_result f xs = Inr ys"
proof (induction xs)
  case Nil
  show ?case by simp
next
  case (Cons x xs)
  from Cons.prems obtain y where "f x = Inr y" by auto
  moreover from Cons obtain ys where "map_result f xs = Inr ys" by auto
  ultimately show ?case by simp
qed

lemma prepare_Arr_Inr:
  "prepareMenuItemsForCreate tn (Arr xs) = Inr out \<longleftrightarrow>
     (\<exists>ys. out = Arr ys \<and> list_all2 (\<lambda>x y. prepareItem tn x = Inr y) xs ys)"
  by (cases "map_result (prepareItem tn) xs")
    (auto simp: prepare_Arr map_result_Inr_iff [symmetric])

lemma prepare_nth:
  assumes "prepareMenuItemsForCreate tn (Arr xs) = Inr (Arr ys)" and "i < length xs"
  shows "prepareItem tn (xs ! i) = Inr (ys ! i)"
  using assms by (auto simp: prepare_Arr_Inr list_all2_conv_all_nth)

lemma prepare_length:
  assumes "prepareMenuItemsForCreate tn (Arr xs) = Inr out"
  shows "\<exists>ys. out = Arr ys \<and> length ys = length xs"
  using assms by (auto simp: prepare_Arr_Inr dest: list_all2_lengthD)

lemma prepare_non_array:
  assumes "prepareMenuItemsForCreate tn v = Inr out"
  shows "(\<exists>xs. v = Arr xs) \<or> out = Arr []"
  using assms by (cases v) (auto simp: prepareMenuItemsForCreate.simps split: if_splits)

text \<open>
  A recursive call that the callback makes, and that returns, was made on a non-empty
  array: on any other value with a positive \<^verbatim>\<open>length\<close> the call throws.
\<close>

lemma prepare_positive_length:
  assumes "truthy c" and "gt_zero tn (js_get c (js ''length'')) = Inr True"
    and "prepareMenuItemsForCreate tn c = Inr v"
  shows "\<exists>xs ys. c = Arr xs \<and> xs \<noteq> [] \<and> v = Arr ys \<and> length ys = length xs"
proof -
  from assms(2) have nz: "js_get c (js ''length'') \<noteq> Num (Fin 0)"
    by (auto simp: gt_zero_def)
  with assms(1,3) obtain xs where c: "c = Arr xs"
    by (cases c) (auto simp: prepareMenuItemsForCreate.simps)
  with nz have "xs \<noteq> []" by auto
  moreover from assms(3) c obtain ys where "v = Arr ys" "length ys = length xs"
    by (auto simp: prepare_Arr_Inr dest: list_all2_lengthD)
  ultimately show ?thesis using c by blast
qed

text \<open>The two ways in which the callback returns: without and with an \<^verbatim>\<open>items\<close> field.\<close>

lemma prepareItem_cases:
  assumes "prepareItem tn item = Inr out"
  obtains
    (leaf) "out = Obj ([(js ''title'', js_get item (js ''title'')),
                   (js ''url'', js_get item (js ''url'')),
                   (js ''type'', js_get item (js ''type''))]
                  @ (if truthy (js_get item (js ''resourceId''))
                     then [(js ''resourceId'', js_get item (js ''resourceId''))] else []))"
      "\<not> truthy (js_get item (js ''items'')) \<or>
         gt_zero tn (js_get (js_get item (js ''items'')) (js ''length'')) = Inr False"
  | (node) xs ys where
      "js_get item (js ''items'') = Arr xs" "xs \<noteq> []"
      "prepareMenuItemsForCreate tn (Arr xs) = Inr (Arr ys)" "length ys = length xs"
      "out = Obj ([(js ''title'', js_get item (js ''title'')),
                   (js ''url'', js_get item (js ''url'')),
                   (js ''type'', js_get item (js ''type''))]
                  @ (if truthy (js_get item (js ''resourceId''))
                     then [(js ''resourceId'', js_get item (js ''resourceId''))] else [])
                  @ [(js ''items'', Arr ys)])"
proof (cases "truthy (js_get item (js ''items'')) \<and>
    gt_zero tn (js_get (js_get item (js ''items'')) (js ''length'')) = Inr True")
  case False
  with assms have "out = Obj ([(js ''title'', js_get item (js ''title'')),
                   (js ''url'', js_get item (js ''url'')),
                   (js ''type'', js_get item (js ''type''))]
                  @ (if truthy (js_get item (js ''resourceId''))
                     then [(js ''resourceId'', js_get item (js ''resourceId''))] else []))"
    by (auto simp: prepareItem.simps Let_def split: if_splits sum.splits bool.splits)
  moreover from False assms have "\<not> truthy (js_get item (js ''items'')) \<or>
         gt_zero tn (js_get (js_get item (js ''items'')) (js ''length'')) = Inr False"
    by (auto simp: prepareItem.simps Let_def split: if_splits sum.splits bool.splits)
  ultimately show ?thesis by (rule leaf)
next
  case True
  with assms obtain v where v: "prepareMenuItemsForCreate tn (js_get item (js ''items'')) = Inr v"
    and out: "out = Obj ([(js ''title'', js_get item (js ''title'')),
                   (js ''url'', js_get item (js ''url'')),
                   (js ''type'', js_get item (js ''type''))]
                  @ (if truthy (js_get item (js ''resourceId''))
                     then [(js ''resourceId'', js_get item (js ''resourceId''))] else [])
                  @ [(js ''items'', v)])"
    by (auto simp: prepareItem.simps Let_def split: if_splits sum.splits)
  from prepare_positive_length [OF _ _ v] True obtain xs ys
    where "js_get item (js ''items'') = Arr xs" "xs \<noteq> []" "v = Arr ys" "length ys = length xs"
    by blast
  with v out show ?thesis by (auto intro: node)
qed

text \<open>
  Outside the data model the source throws: an array that holds \<^verbatim>\<open>null\<close> ends in the
  \<^verbatim>\<open>TypeError\<close> of \<^verbatim>\<open>item.title\<close>, a non-empty string in that of \<^verbatim>\<open>items.map\<close>.
\<close>

lemma prepare_throws:
  "prepareMenuItemsForCreate tn (Arr [Null]) = Inl (TypeError (cannot_read Null ''title''))"
  "prepareMenuItemsForCreate tn (Str (js ''abc'')) =
     Inl (TypeError (js ''items.map is not a function''))"
  by (simp_all add: prepareMenuItemsForCreate.simps prepareItem.simps)

lemma item_records_Arr:
  "item_records v \<longleftrightarrow> (\<exists>xs. v = Arr xs \<and> (\<forall>x\<in>set xs. item_record x))"
  by (cases v) (simp_all add: item_records.simps list_all_iff)

text \<open>On a tree of records the normalizer returns: no read and no call of it throws.\<close>

lemma prepare_total:
  "item_records v \<Longrightarrow> \<exists>out. prepareMenuItemsForCreate tn v = Inr out"
  "item_record w \<Longrightarrow> \<exists>y. prepareItem tn w = Inr y"
proof (induction v and w rule: item_records_item_record.induct)
  case (1 v)
  from "1.prems" obtain xs where v: "v = Arr xs" and xs: "\<forall>x\<in>set xs. item_record x"
    by (auto simp: item_records_Arr)
  with "1.IH" have "\<And>x. x \<in> set xs \<Longrightarrow> \<exists>y. prepareItem tn x = Inr y"
    by blast
  then obtain ys where "map_result (prepareItem tn) xs = Inr ys"
    using map_result_total by blast
  with v show ?case by (simp add: prepare_Arr)
next
  case (2 w)
  from "2.prems" obtain kv where w: "w = Obj kv"
    by (cases w) (simp_all add: item_record.simps)
  show ?case
  proof (cases "map_of kv (js ''items'')")
    case None
    with w show ?thesis by (simp add: prepareItem.simps Let_def)
  next
    case (Some c)
    show ?thesis
    proof (cases "c = Null")
      case True
      with w Some show ?thesis by (simp add: prepareItem.simps Let_def)
    next
      case False
      with "2.prems" w Some have rec: "item_records c"
        by (simp add: item_record.simps)
      with "2.IH" w Some False obtain out where out: "prepareMenuItemsForCreate tn c = Inr out"
        by blast
      from rec obtain xs where "c = Arr xs" by (auto simp: item_records_Arr)
      with w Some out show ?thesis
        by (cases "xs = []") (simp_all add: prepareItem.simps Let_def)
    qed
  qed
qed

subsection \<open>Facts by induction on the size of the input\<close>

lemma only_menu_fields_Arr:
  "only_menu_fields (Arr ys) \<longleftrightarrow> (\<forall>y\<in>set ys. only_menu_fields_item y)"
  by (simp add: only_menu_fields.simps list_all_iff)

lemma forwarded_Arr: "forwarded (Arr xs) (Arr ys) \<longleftrightarrow> list_all2 forwarded_item xs ys"
  by (simp add: forwarded.simps)

lemma prepare_idem_both:
  "(\<forall>out. prepareMenuItemsForCreate tn v = Inr out \<longrightarrow> prepareMenuItemsForCreate tn out = Inr out) \<and>
   (\<forall>y. prepareItem tn v = Inr y \<longrightarrow> prepareItem tn y = Inr y)"
proof (induction v rule: measure_induct_rule [where f = size])
  case (less v)
  have "prepareMenuItemsForCreate tn out = Inr out"
    if run: "prepareMenuItemsForCreate tn v = Inr out" for out
  proof (cases "\<exists>xs. v = Arr xs")
    case False
    with prepare_non_array [OF run] have "out = Arr []" by blast
    then show ?thesis by (simp add: prepare_Arr)
  next
    case True
    then obtain xs where v: "v = Arr xs" ..
    with run obtain ys where out: "out = Arr ys"
      and all: "list_all2 (\<lambda>x y. prepareItem tn x = Inr y) xs ys"
      by (auto simp: prepare_Arr_Inr)
    have "list_all2 (\<lambda>y y'. prepareItem tn y = Inr y') ys ys"
      unfolding list_all2_conv_all_nth
    proof (intro conjI allI impI)
      fix i assume i: "i < length ys"
      with all have step: "prepareItem tn (xs ! i) = Inr (ys ! i)" and "i < length xs"
        by (auto simp: list_all2_conv_all_nth)
      then have "size (xs ! i) < size v"
        using v by (simp add: size_elem)
      from less.IH [OF this] step show "prepareItem tn (ys ! i) = Inr (ys ! i)" by blast
    qed simp
    with out show ?thesis by (simp add: prepare_Arr_Inr)
  qed
  moreover have "prepareItem tn y = Inr y" if run: "prepareItem tn v = Inr y" for y
    using run
  proof (cases rule: prepareItem_cases)
    case leaf
    then show ?thesis by (simp add: prepareItem.simps Let_def)
  next
    case (node xs ys)
    then have "size (Arr xs) < size v"
      using size_js_get_items [of v] by simp
    from less.IH [OF this] node have "prepareMenuItemsForCreate tn (Arr ys) = Inr (Arr ys)"
      by blast
    with node show ?thesis by (simp add: prepareItem.simps Let_def)
  qed
  ultimately show ?case by blast
qed

lemma prepare_only_menu_fields_both:
  "(\<forall>out. prepareMenuItemsForCreate tn v = Inr out \<longrightarrow> only_menu_fields out) \<and>
   (\<forall>y. prepareItem tn v = Inr y \<longrightarrow> only_menu_fields_item y)"
proof (induction v rule: measure_induct_rule [where f = size])
  case (less v)
  have "only_menu_fields out" if run: "prepareMenuItemsForCreate tn v = Inr out" for out
  proof (cases "\<exists>xs. v = Arr xs")
    case False
    with prepare_non_array [OF run] have "out = Arr []" by blast
    then show ?thesis by (simp add: only_menu_fields_Arr)
  next
    case True
    then obtain xs where v: "v = Arr xs" ..
    with run obtain ys where out: "out = Arr ys"
      and all: "list_all2 (\<lambda>x y. prepareItem tn x = Inr y) xs ys"
      by (auto simp: prepare_Arr_Inr)
    have "only_menu_fields_item y" if "y \<in> set ys" for y
    proof -
      from that obtain i where i: "i < length ys" "y = ys ! i"
        by (auto simp: in_set_conv_nth)
      with all have step: "prepareItem tn (xs ! i) = Inr y" and "i < length xs"
        by (auto simp: list_all2_conv_all_nth)
      then have "size (xs ! i) < size v"
        using v by (simp add: size_elem)
      from less.IH [OF this] step show ?thesis by blast
    qed
    with out show ?thesis by (simp add: only_menu_fields_Arr)
  qed
  moreover have "only_menu_fields_item y" if run: "prepareItem tn v = Inr y" for y
    using run
  proof (cases rule: prepareItem_cases)
    case leaf
    then show ?thesis by (simp add: only_menu_fields_item.simps menu_fields_def)
  next
    case (node xs ys)
    then have "size (Arr xs) < size v"
      using size_js_get_items [of v] by simp
    from less.IH [OF this] node have "only_menu_fields (Arr ys)"
      by blast
    with node show ?thesis by (simp add: only_menu_fields_item.simps menu_fields_def)
  qed
  ultimately show ?case by blast
qed

lemma prepare_forwarded_both:
  "(\<forall>out. prepareMenuItemsForCreate tn v = Inr out \<longrightarrow> forwarded v out) \<and>
   (\<forall>y. prepareItem tn v = Inr y \<longrightarrow> forwarded_item v y)"
proof (induction v rule: measure_induct_rule [where f = size])
  case (less v)
  have "forwarded v out" if run: "prepareMenuItemsForCreate tn v = Inr out" for out
  proof (cases "\<exists>xs. v = Arr xs")
    case False
    with prepare_non_array [OF run] have "out = Arr []" by blast
    with False show ?thesis by (cases v) (simp_all add: forwarded.simps)
  next
    case True
    then obtain xs where v: "v = Arr xs" ..
    with run obtain ys where out: "out = Arr ys"
      and all: "list_all2 (\<lambda>x y. prepareItem tn x = Inr y) xs ys"
      by (auto simp: prepare_Arr_Inr)
    have "list_all2 forwarded_item xs ys"
      unfolding list_all2_conv_all_nth
    proof (intro conjI allI impI)
      show "length xs = length ys" using all by (rule list_all2_lengthD)
      fix i assume i: "i < length xs"
      with all have step: "prepareItem tn (xs ! i) = Inr (ys ! i)"
        by (auto simp: list_all2_conv_all_nth)
      from i have "size (xs ! i) < size v"
        using v by (simp add: size_elem)
      from less.IH [OF this] step show "forwarded_item (xs ! i) (ys ! i)" by blast
    qed
    with v out show ?thesis by (simp add: forwarded_Arr)
  qed
  moreover have "forwarded_item v y" if run: "prepareItem tn v = Inr y" for y
    using run
  proof (cases rule: prepareItem_cases)
    case leaf
    then show ?thesis by (simp add: forwarded_item.simps own_field_def)
  next
    case (node xs ys)
    then have "size (Arr xs) < size v"
      using size_js_get_items [of v] by simp
    from less.IH [OF this] node have "forwarded (Arr xs) (Arr ys)"
      by blast
    with node show ?thesis by (simp add: forwarded_item.simps own_field_def)
  qed
  ultimately show ?case by blast
qed

lemma prepareItem_resourceId:
  assumes "prepareItem tn item = Inr out"
  shows "own_field out (js ''resourceId'') =
           (if truthy (js_get item (js ''resourceId''))
            then Some (js_get item (js ''resourceId'')) else None)"
  using assms by (cases rule: prepareItem_cases) (simp_all add: own_field_def)

lemma prepareItem_items:
  assumes "prepareItem tn item = Inr out"
  shows "(\<forall>c cs. js_get item (js ''items'') = Arr (c # cs) \<longrightarrow>
            (\<exists>v. prepareMenuItemsForCreate tn (Arr (c # cs)) = Inr v \<and>
                 own_field out (js ''items'') = Some v)) \<and>
         ((\<forall>c cs. js_get item (js ''items'') \<noteq> Arr (c # cs)) \<longrightarrow>
            own_field out (js ''items'') = None)"
  using assms
proof (cases rule: prepareItem_cases)
  case leaf
  then show ?thesis by (auto simp: own_field_def)
next
  case (node xs ys)
  then show ?thesis by (cases xs) (auto simp: own_field_def)
qed


subsection \<open>Length and order\<close>

text \<open>
  Claim C1. For every input sequence, the normalizer returns a sequence of the same
  length whose \<open>i\<close>-th element is the sanitized copy of the \<open>i\<close>-th input element:
  every call on an array that returns has this result, and on an array of item records
  the call does return. For the empty array, \<^verbatim>\<open>null\<close> and \<^verbatim>\<open>undefined\<close> the result is
  the empty array.
\<close>

theorem prepare_same_length_and_order:
  "(\<forall>out. prepareMenuItemsForCreate tn (Arr xs) = Inr out \<longrightarrow>
      (\<exists>ys. out = Arr ys \<and> length ys = length xs \<and>
            (\<forall>i<length xs. prepareItem tn (xs ! i) = Inr (ys ! i)))) \<and>
   (item_records (Arr xs) \<longrightarrow> (\<exists>out. prepareMenuItemsForCreate tn (Arr xs) = Inr out)) \<and>
   prepareMenuItemsForCreate tn (Arr []) = Inr (Arr []) \<and>
   prepareMenuItemsForCreate tn Null = Inr (Arr []) \<and>
   prepareMenuItemsForCreate tn Undefined = Inr (Arr [])"
proof (intro conjI allI impI)
  fix out assume run: "prepareMenuItemsForCreate tn (Arr xs) = Inr out"
  then obtain ys where "out = Arr ys" "length ys = length xs"
    using prepare_length by blast
  with run show "\<exists>ys. out = Arr ys \<and> length ys = length xs \<and>
            (\<forall>i<length xs. prepareItem tn (xs ! i) = Inr (ys ! i))"
    by (auto intro: prepare_nth)
next
  assume "item_records (Arr xs)"
  then show "\<exists>out. prepareMenuItemsForCreate tn (Arr xs) = Inr out"
    by (rule prepare_total)
qed (simp_all add: prepare_Arr prepare_falsy)

theorem prepare_same_length_and_order_witness:
  "item_records (Arr [home_raw, shop_raw]) \<and>
   prepareMenuItemsForCreate (\<lambda>v. Inr NaN) (Arr [home_raw, shop_raw]) =
     Inr (Arr [home_clean, shop_clean]) \<and>
   length [home_clean, shop_clean] = length [home_raw, shop_raw] \<and>
   prepareItem (\<lambda>v. Inr NaN) ([home_raw, shop_raw] ! 1) = Inr ([home_clean, shop_clean] ! 1)"
  using prepare_same_length_and_order [of "\<lambda>v. Inr NaN" "[home_raw, shop_raw]"]
  by (simp add: example_defs item_records.simps item_record.simps run_simps)


subsection \<open>The field contract\<close>

text \<open>
  Claim C2. Every item of the output, at every nesting depth, has no field outside
  \<^verbatim>\<open>title\<close>, \<^verbatim>\<open>url\<close>, \<^verbatim>\<open>type\<close>, \<^verbatim>\<open>resourceId\<close>, \<^verbatim>\<open>items\<close> (extra fields
  of the input are dropped), and its \<^verbatim>\<open>title\<close>, \<^verbatim>\<open>url\<close> and \<^verbatim>\<open>type\<close> are those
  of the input item at the same position, unchanged. This holds of every call that
  returns, and on a tree of item records the call returns.
\<close>

theorem prepare_field_contract:
  "(\<forall>out. prepareMenuItemsForCreate tn v = Inr out \<longrightarrow> only_menu_fields out \<and> forwarded v out) \<and>
   (item_records v \<longrightarrow> (\<exists>out. prepareMenuItemsForCreate tn v = Inr out))"
  using prepare_only_menu_fields_both [of tn v] prepare_forwarded_both [of tn v]
    prepare_total(1) [of v tn]
  by blast

theorem prepare_field_contract_witness:
  "item_records (Arr [shop_raw]) \<and>
   prepareMenuItemsForCreate (\<lambda>v. Inr NaN) (Arr [shop_raw]) = Inr (Arr [shop_clean]) \<and>
   own_field shop_raw (js ''id'') = Some (Str (js ''gid://shopify/MenuItem/7'')) \<and>
   own_field shop_clean (js ''id'') = None \<and>
   only_menu_fields (Arr [shop_clean]) \<and> forwarded (Arr [shop_raw]) (Arr [shop_clean])"
  using prepare_field_contract [of "\<lambda>v. Inr NaN" "Arr [shop_raw]"]
  by (simp add: example_defs item_records.simps item_record.simps run_simps own_field_def)


subsection \<open>The resource identifier\<close>

text \<open>
  Claim C3. An output item has a \<^verbatim>\<open>resourceId\<close> field exactly when the
  \<^verbatim>\<open>resourceId\<close> of its input item is truthy, and then with the same value; an
  absent or falsy one, the empty string in particular, leaves the output item without
  the field.
\<close>

theorem prepare_resourceId:
  "(\<forall>ys. prepareMenuItemsForCreate tn (Arr xs) = Inr (Arr ys) \<longrightarrow>
      (\<forall>i<length xs.
         own_field (ys ! i) (js ''resourceId'') =
           (if truthy (js_get (xs ! i) (js ''resourceId''))
            then Some (js_get (xs ! i) (js ''resourceId'')) else None) \<and>
         (js_get (xs ! i) (js ''resourceId'') \<in> {Undefined, Null, Str []} \<longrightarrow>
            own_field (ys ! i) (js ''resourceId'') = None))) \<and>
   (item_records (Arr xs) \<longrightarrow> (\<exists>ys. prepareMenuItemsForCreate tn (Arr xs) = Inr (Arr ys)))"
proof (intro conjI allI impI)
  fix ys i
  assume run: "prepareMenuItemsForCreate tn (Arr xs) = Inr (Arr ys)" and i: "i < length xs"
  then have item: "prepareItem tn (xs ! i) = Inr (ys ! i)"
    by (rule prepare_nth)
  from prepareItem_resourceId [OF item]
  show "own_field (ys ! i) (js ''resourceId'') =
           (if truthy (js_get (xs ! i) (js ''resourceId''))
            then Some (js_get (xs ! i) (js ''resourceId'')) else None)" .
  assume "js_get (xs ! i) (js ''resourceId'') \<in> {Undefined, Null, Str []}"
  with prepareItem_resourceId [OF item]
  show "own_field (ys ! i) (js ''resourceId'') = None" by auto
next
  assume "item_records (Arr xs)"
  from prepare_total(1) [OF this] obtain out
    where "prepareMenuItemsForCreate tn (Arr xs) = Inr out" by blast
  then show "\<exists>ys. prepareMenuItemsForCreate tn (Arr xs) = Inr (Arr ys)"
    using prepare_length by blast
qed

theorem prepare_resourceId_witness:
  "item_records (Arr [home_raw, shop_raw]) \<and>
   prepareMenuItemsForCreate (\<lambda>v. Inr NaN) (Arr [home_raw, shop_raw]) =
     Inr (Arr [home_clean, shop_clean]) \<and>
   js_get home_raw (js ''resourceId'') = Str [] \<and>
   own_field home_clean (js ''resourceId'') = None \<and>
   js_get shop_raw (js ''resourceId'') = Str (js ''gid://123'') \<and>
   own_field shop_clean (js ''resourceId'') = Some (Str (js ''gid://123''))"
  using prepare_resourceId [of "\<lambda>v. Inr NaN" "[home_raw, shop_raw]"]
  by (simp add: example_defs item_records.simps item_record.simps run_simps own_field_def)


subsection \<open>The children\<close>

text \<open>
  Claim C4. An output item has an \<^verbatim>\<open>items\<close> field exactly when the \<^verbatim>\<open>items\<close> of
  its input item is a non-empty array, and the field is then the normalizer's result
  on that array; an absent or empty \<^verbatim>\<open>items\<close> leaves the output item without the
  field.
\<close>

theorem prepare_children:
  "(\<forall>ys. prepareMenuItemsForCreate tn (Arr xs) = Inr (Arr ys) \<longrightarrow>
      (\<forall>i<length xs.
         (\<forall>c cs. js_get (xs ! i) (js ''items'') = Arr (c # cs) \<longrightarrow>
            (\<exists>v. prepareMenuItemsForCreate tn (Arr (c # cs)) = Inr v \<and>
                 own_field (ys ! i) (js ''items'') = Some v)) \<and>
         ((\<forall>c cs. js_get (xs ! i) (js ''items'') \<noteq> Arr (c # cs)) \<longrightarrow>
            own_field (ys ! i) (js ''items'') = None))) \<and>
   (item_records (Arr xs) \<longrightarrow> (\<exists>ys. prepareMenuItemsForCreate tn (Arr xs) = Inr (Arr ys)))"
proof (intro conjI allI impI)
  fix ys i
  assume run: "prepareMenuItemsForCreate tn (Arr xs) = Inr (Arr ys)" and i: "i < length xs"
  then have item: "prepareItem tn (xs ! i) = Inr (ys ! i)"
    by (rule prepare_nth)
  {
    fix c cs assume "js_get (xs ! i) (js ''items'') = Arr (c # cs)"
    with prepareItem_items [OF item]
    show "\<exists>v. prepareMenuItemsForCreate tn (Arr (c # cs)) = Inr v \<and>
                 own_field (ys ! i) (js ''items'') = Some v" by blast
  next
    assume "\<forall>c cs. js_get (xs ! i) (js ''items'') \<noteq> Arr (c # cs)"
    with prepareItem_items [OF item]
    show "own_field (ys ! i) (js ''items'') = None" by blast
  }
next
  assume "item_records (Arr xs)"
  from prepare_total(1) [OF this] obtain out
    where "prepareMenuItemsForCreate tn (Arr xs) = Inr out" by blast
  then show "\<exists>ys. prepareMenuItemsForCreate tn (Arr xs) = Inr (Arr ys)"
    using prepare_length by blast
qed

theorem prepare_children_witness:
  "item_records (Arr [home_raw, shop_raw]) \<and>
   prepareMenuItemsForCreate (\<lambda>v. Inr NaN) (Arr [home_raw, shop_raw]) =
     Inr (Arr [home_clean, shop_clean]) \<and>
   js_get home_raw (js ''items'') = Arr [] \<and>
   own_field home_clean (js ''items'') = None \<and>
   js_get shop_raw (js ''items'') = Arr [sale_item] \<and>
   prepareMenuItemsForCreate (\<lambda>v. Inr NaN) (Arr [sale_item]) = Inr (Arr [sale_item]) \<and>
   own_field shop_clean (js ''items'') = Some (Arr [sale_item])"
  using prepare_children [of "\<lambda>v. Inr NaN" "[home_raw, shop_raw]"]
  by (simp add: example_defs item_records.simps item_record.simps run_simps own_field_def)


subsection \<open>Idempotence\<close>

text \<open>
  Claim C5. The normalizer is idempotent: a value \<open>x\<close> that it returned is returned
  unchanged when given back to it; put as one equation, running it twice (the second
  run on the result of the first, a throw of the first run passed on) is running it
  once. On a tree of item records the first run returns.
\<close>

theorem prepare_idempotent:
  "(\<forall>x. prepareMenuItemsForCreate tn y = Inr x \<longrightarrow> prepareMenuItemsForCreate tn x = Inr x) \<and>
   (case prepareMenuItemsForCreate tn y of
      Inl e \<Rightarrow> Inl e
    | Inr x \<Rightarrow> prepareMenuItemsForCreate tn x) = prepareMenuItemsForCreate tn y \<and>
   (item_records y \<longrightarrow> (\<exists>x. prepareMenuItemsForCreate tn y = Inr x))"
  using prepare_idem_both [of tn y] prepare_total(1) [of y tn]
  by (auto split: sum.splits)

theorem prepare_idempotent_witness:
  "item_records (Arr [home_raw, shop_raw]) \<and>
   prepareMenuItemsForCreate (\<lambda>v. Inr NaN) (Arr [home_raw, shop_raw]) =
     Inr (Arr [home_clean, shop_clean]) \<and>
   prepareMenuItemsForCreate (\<lambda>v. Inr NaN) (Arr [home_clean, shop_clean]) =
     Inr (Arr [home_clean, shop_clean])"
  using prepare_idempotent [of "\<lambda>v. Inr NaN" "Arr [home_raw, shop_raw]"]
  by (simp add: example_defs item_records.simps item_record.simps run_simps)


section \<open>Properties of the request handlers\<close>

subsection \<open>Auxiliary facts\<close>

lemmas demo_defs = demo_env_def demo_parse_def demo_graphql_def ascii_lower_def

lemmas handler_defs = action_def duplicateMenu_def importMenu_def duplicateMenu_try_def
  importMenu_try_def newMenuHandle_def slug_def trim_def is_space_def
  is_word_def js_or_def opt_get_def

text \<open>Trimming: a string of white space trims to the empty string, and trimming twice is trimming once.\<close>

lemma trim_all_space: "list_all is_space s \<Longrightarrow> trim s = []"
proof -
  assume "list_all is_space s"
  then have empty: "dropWhile is_space s = []"
    by (induction s) auto
  show ?thesis unfolding trim_def empty by simp
qed

lemma dropWhile_unchanged: "xs = [] \<or> \<not> p (hd xs) \<Longrightarrow> dropWhile p xs = xs"
  by (cases xs) auto

lemma trim_no_leading: "trim s = [] \<or> \<not> is_space (hd (trim s))"
proof -
  define a where "a = dropWhile is_space s"
  have a: "a = [] \<or> \<not> is_space (hd a)"
    unfolding a_def using hd_dropWhile [of is_space s] by blast
  have split: "a = trim s @ rev (takeWhile is_space (rev a))"
  proof -
    have "rev (takeWhile is_space (rev a) @ dropWhile is_space (rev a)) =
        rev (dropWhile is_space (rev a)) @ rev (takeWhile is_space (rev a))"
      by (rule rev_append)
    then have "a = rev (dropWhile is_space (rev a)) @ rev (takeWhile is_space (rev a))"
      by (simp only: takeWhile_dropWhile_id rev_rev_ident)
    then show ?thesis by (simp only: trim_def a_def)
  qed
  show ?thesis
  proof (cases "trim s = []")
    case True
    then show ?thesis by simp
  next
    case False
    with split have "hd a = hd (trim s)" and "a \<noteq> []"
      by (metis hd_append2, metis append_is_Nil_conv)
    with a show ?thesis by simp
  qed
qed

lemma trim_trim: "trim (trim s) = trim s"
proof -
  have "dropWhile is_space (trim s) = trim s"
    using trim_no_leading by (rule dropWhile_unchanged)
  then have "trim (trim s) = rev (dropWhile is_space (rev (trim s)))"
    by (simp add: trim_def)
  also have "rev (trim s) = dropWhile is_space (rev (dropWhile is_space s))"
    by (simp add: trim_def)
  finally show ?thesis
    by (simp add: trim_def)
qed

text \<open>
  Replacing runs: with the empty replacement the regular expression deletes the code
  units of its class; a run in front is replaced as a whole, any other code unit is kept.
\<close>

lemma replace_runs_delete: "replace_runs p [] s = filter (\<lambda>c. \<not> p c) s"
proof (induction s rule: length_induct)
  case (1 s)
  show ?case
  proof (cases s)
    case Nil
    then show ?thesis by simp
  next
    case (Cons c cs)
    show ?thesis
    proof (cases "p c")
      case False
      with Cons 1 show ?thesis by simp
    next
      case True
      have "length (dropWhile p cs) < length s"
        using Cons by (simp add: length_dropWhile_le less_Suc_eq_le)
      with 1 have "replace_runs p [] (dropWhile p cs) = filter (\<lambda>c. \<not> p c) (dropWhile p cs)"
        by blast
      also have "\<dots> = filter (\<lambda>c. \<not> p c) cs"
        by (induction cs) auto
      finally show ?thesis using Cons True by simp
    qed
  qed
qed

lemma replace_runs_run:
  assumes "ws \<noteq> []" and "list_all p ws" and "rest = [] \<or> \<not> p (hd rest)"
  shows "replace_runs p r (ws @ rest) = r @ replace_runs p r rest"
proof -
  from assms(1) obtain w ws' where ws: "ws = w # ws'" by (cases ws) auto
  with assms(2) have "p w" and all: "\<forall>x\<in>set ws'. p x" by (auto simp: list_all_iff)
  from all have "dropWhile p (ws' @ rest) = dropWhile p rest"
    by simp
  also from assms(3) have "\<dots> = rest" by (rule dropWhile_unchanged)
  finally show ?thesis using ws \<open>p w\<close> by simp
qed

lemma replace_runs_keep: "\<not> p c \<Longrightarrow> replace_runs p r (c # cs) = c # replace_runs p r cs"
  by simp

lemma slug_filter:
  "slug lower t = filter (\<lambda>c. is_word c \<or> c = 0x2D) (replace_runs is_space (js ''-'') (lower t))"
  by (simp add: slug_def replace_runs_delete)

text \<open>The requests a flow sends, and the title and handle of a menu creation among them.\<close>

lemma duplicateMenu_try_create:
  "CreateMenu t h its \<in> set (snd (duplicateMenu_try e mid title))
   \<Longrightarrow> t = title \<and> h = newMenuHandle e title"
  by (auto simp: duplicateMenu_try_def Let_def split: sum.splits if_splits)

lemma importMenu_try_create:
  "CreateMenu t h its \<in> set (snd (importMenu_try e content title))
   \<Longrightarrow> t = title \<and> h = newMenuHandle e title"
  by (auto simp: importMenu_try_def Let_def split: sum.splits if_splits option.splits jsval.splits)

lemma duplicateMenu_sent:
  "snd (duplicateMenu e fd) =
     (case (map_of fd (js ''originalMenuId''), trimmed_text (map_of fd (js ''newMenuTitle''))) of
        (Some mid, Some title) \<Rightarrow>
          if form_falsy (Some mid) \<or> title = [] then []
          else snd (duplicateMenu_try e mid title)
      | _ \<Rightarrow> [])"
  by (simp add: duplicateMenu_def Let_def split: option.splits prod.splits sum.splits)

lemma importMenu_sent:
  "snd (importMenu e fd) =
     (case (trimmed_text (map_of fd (js ''newImportMenuTitle'')), map_of fd (js ''menuFile'')) of
        (Some title, Some (FormFile n content)) \<Rightarrow>
          if title = [] \<or> n = 0 then [] else snd (importMenu_try e content title)
      | _ \<Rightarrow> [])"
  by (simp add: importMenu_def Let_def
      split: option.splits prod.splits sum.splits form_value.splits)

lemma action_sent:
  "snd (action e fd) =
     (if authenticate e = AuthAdmin True then
        if map_of fd (js ''_action'') = Some (FormText (js ''duplicateMenu''))
        then snd (duplicateMenu e fd)
        else if map_of fd (js ''_action'') = Some (FormText (js ''importMenu''))
        then snd (importMenu e fd)
        else []
      else [])"
  by (simp add: action_def Let_def split: auth_result.splits prod.splits)

lemma duplicateMenu_create:
  assumes "CreateMenu t h its \<in> set (snd (duplicateMenu e fd))"
  shows "trimmed_text (map_of fd (js ''newMenuTitle'')) = Some t \<and> h = newMenuHandle e t"
  using assms
  by (auto simp: duplicateMenu_sent split: option.splits if_splits
      dest: duplicateMenu_try_create)

lemma importMenu_create:
  assumes "CreateMenu t h its \<in> set (snd (importMenu e fd))"
  shows "trimmed_text (map_of fd (js ''newImportMenuTitle'')) = Some t \<and> h = newMenuHandle e t"
  using assms
  by (auto simp: importMenu_sent split: option.splits if_splits form_value.splits
      dest: importMenu_try_create)

lemma action_create:
  assumes "CreateMenu t h its \<in> set (snd (action e fd))"
  shows "h = newMenuHandle e t \<and>
         (map_of fd (js ''_action'') = Some (FormText (js ''duplicateMenu'')) \<and>
            trimmed_text (map_of fd (js ''newMenuTitle'')) = Some t \<or>
          map_of fd (js ''_action'') = Some (FormText (js ''importMenu'')) \<and>
            trimmed_text (map_of fd (js ''newImportMenuTitle'')) = Some t)"
  using assms
  by (auto simp: action_sent split: if_splits
      dest: duplicateMenu_create importMenu_create)

text \<open>The action reads the two title fields only through \<open>trimmed_text\<close>.\<close>

lemma action_depends_on_trimmed_titles:
  assumes other: "\<And>k. k \<noteq> js ''newMenuTitle'' \<Longrightarrow> k \<noteq> js ''newImportMenuTitle'' \<Longrightarrow>
            map_of fd1 k = map_of fd2 k"
    and dup: "trimmed_text (map_of fd1 (js ''newMenuTitle'')) =
           trimmed_text (map_of fd2 (js ''newMenuTitle''))"
    and imp: "trimmed_text (map_of fd1 (js ''newImportMenuTitle'')) =
           trimmed_text (map_of fd2 (js ''newImportMenuTitle''))"
  shows "action e fd1 = action e fd2"
proof -
  have act: "map_of fd1 (js ''_action'') = map_of fd2 (js ''_action'')"
    and mid: "map_of fd1 (js ''originalMenuId'') = map_of fd2 (js ''originalMenuId'')"
    and upl: "map_of fd1 (js ''menuFile'') = map_of fd2 (js ''menuFile'')"
    by (simp_all add: other)
  have "duplicateMenu e fd1 = duplicateMenu e fd2"
    by (simp only: duplicateMenu_def mid dup)
  moreover have "importMenu e fd1 = importMenu e fd2"
    by (simp only: importMenu_def upl imp)
  ultimately show ?thesis
    by (simp only: action_def act)
qed

text \<open>The validation branches, and the three ways in which an upload fails to be a menu document.\<close>

lemma duplicate_rejects:
  assumes "authenticate e = AuthAdmin True"
    and "map_of fd (js ''_action'') = Some (FormText (js ''duplicateMenu''))"
    and "form_falsy (map_of fd (js ''originalMenuId'')) \<or>
         trimmed_text (map_of fd (js ''newMenuTitle'')) \<in> {None, Some []}"
  shows "action e fd = (Inr duplicate_form_error, [])"
  using assms
  by (auto simp: action_def duplicateMenu_def Let_def split: option.splits)

lemma import_rejects:
  assumes "authenticate e = AuthAdmin True"
    and "map_of fd (js ''_action'') = Some (FormText (js ''importMenu''))"
    and "trimmed_text (map_of fd (js ''newImportMenuTitle'')) \<in> {None, Some []} \<or>
         map_of fd (js ''menuFile'') = None \<or>
         (\<exists>s. map_of fd (js ''menuFile'') = Some (FormText s)) \<or>
         (\<exists>s. map_of fd (js ''menuFile'') = Some (FormFile 0 s))"
  shows "action e fd = (Inr import_form_error, [])"
  using assms
  by (auto simp: action_def importMenu_def Let_def split: option.splits form_value.splits)

lemma import_bad_file:
  assumes "authenticate e = AuthAdmin True"
    and "map_of fd (js ''_action'') = Some (FormText (js ''importMenu''))"
    and "trimmed_text (map_of fd (js ''newImportMenuTitle'')) = Some title" and "title \<noteq> []"
    and "map_of fd (js ''menuFile'') = Some (FormFile n content)" and "n \<noteq> 0"
  shows "json_parse e content = None \<Longrightarrow> action e fd = (Inr invalid_json_error, [])"
    and "json_parse e content = Some d \<Longrightarrow> d \<noteq> Null \<Longrightarrow> d \<noteq> Undefined \<Longrightarrow>
         \<forall>xs. js_get d (js ''items'') \<noteq> Arr xs \<Longrightarrow>
         action e fd = (Inr items_not_found_error, [])"
    and "json_parse e content = Some Null \<Longrightarrow>
         action e fd =
           (Inr (Obj [(js ''actionName'', Str (js ''importMenu'')),
                      (js ''success'', Bool False),
                      (js ''errors'',
                         Arr [Obj [(js ''message'', Str (cannot_read Null ''items''))]])]), [])"
  using assms
  by (auto simp: action_def importMenu_def importMenu_try_def Let_def js_or_def
      split: jsval.splits)

lemma file_error_fields:
  "error_fields invalid_json_error = [Arr [Str (js ''file'')]]"
  "error_fields items_not_found_error = [Arr [Str (js ''file'')]]"
  by (simp_all add: error_fields_def invalid_json_error_def items_not_found_error_def)


subsection \<open>The export endpoint without a menu id\<close>

text \<open>
  Claim C9. For a request whose URL has no \<^verbatim>\<open>menuId\<close> parameter the export loader
  sends no request to the Admin API; and when the request is authenticated (the admin
  client is usable: the check that precedes this one in the loader), the answer has
  status 400 and the body \<^verbatim>\<open>{error: "Missing menuId parameter"}\<close>. An empty
  \<^verbatim>\<open>menuId\<close> is answered like a missing one.
\<close>

theorem export_missing_menuId:
  "snd (export_loader e None) = [] \<and>
   (authenticate e = AuthAdmin True \<longrightarrow>
      export_loader e None =
        (Inr (400, Obj [(js ''error'', Str (js ''Missing menuId parameter''))]), [])) \<and>
   export_loader e (Some []) = export_loader e None"
  by (simp add: export_loader_def split: auth_result.splits thrown.splits)

theorem export_missing_menuId_witness:
  "authenticate demo_env = AuthAdmin True \<and>
   export_loader demo_env None =
     (Inr (400, Obj [(js ''error'', Str (js ''Missing menuId parameter''))]), [])"
  using export_missing_menuId [of demo_env] by (simp add: demo_env_def)

subsection \<open>The generated handle\<close>

text \<open>
  Claim C8. Every menu creation that the action sends, in the duplicate flow and in the
  import flow alike, carries the handle \<open>slug title @ ''-'' @ suffix\<close>, where \<open>title\<close>
  is the title sent with it and \<open>suffix\<close> is the random suffix of the request. The
  slug is a function of the title alone: the title in lower case, with every maximal run
  of white space replaced by one hyphen (the two equations of \<open>replace_runs\<close> on a
  run and on any other code unit), and then with every code unit removed that is neither
  a word character nor a hyphen.
\<close>

theorem handle_is_slug_and_suffix:
  "CreateMenu title handle its \<in> set (snd (action e fd)) \<Longrightarrow>
     handle = slug (toLowerCase e) title @ js ''-'' @ random_suffix e \<and>
     slug (toLowerCase e) title =
       filter (\<lambda>c. is_word c \<or> c = 0x2D)
         (replace_runs is_space (js ''-'') (toLowerCase e title)) \<and>
     (\<forall>ws rest. ws \<noteq> [] \<and> list_all is_space ws \<and> (rest = [] \<or> \<not> is_space (hd rest)) \<longrightarrow>
        replace_runs is_space (js ''-'') (ws @ rest) =
          js ''-'' @ replace_runs is_space (js ''-'') rest) \<and>
     (\<forall>c cs. \<not> is_space c \<longrightarrow>
        replace_runs is_space (js ''-'') (c # cs) = c # replace_runs is_space (js ''-'') cs)"
proof (intro conjI allI impI)
  assume "CreateMenu title handle its \<in> set (snd (action e fd))"
  from action_create [OF this]
  show "handle = slug (toLowerCase e) title @ js ''-'' @ random_suffix e"
    by (simp add: newMenuHandle_def)
next
  show "slug (toLowerCase e) title =
       filter (\<lambda>c. is_word c \<or> c = 0x2D)
         (replace_runs is_space (js ''-'') (toLowerCase e title))"
    by (rule slug_filter)
next
  fix ws rest :: jsstring
  assume "ws \<noteq> [] \<and> list_all is_space ws \<and> (rest = [] \<or> \<not> is_space (hd rest))"
  then show "replace_runs is_space (js ''-'') (ws @ rest) =
          js ''-'' @ replace_runs is_space (js ''-'') rest"
    by (simp add: replace_runs_run)
next
  fix c cs assume "\<not> is_space c"
  then show "replace_runs is_space (js ''-'') (c # cs) = c # replace_runs is_space (js ''-'') cs"
    by simp
qed

theorem handle_is_slug_and_suffix_witness:
  "CreateMenu (js ''My  Main Menu!'') (js ''my-main-menu-k3x9qz'') (Arr [home_clean])
     \<in> set (snd (action demo_env
          [(js ''_action'', FormText (js ''duplicateMenu'')),
           (js ''originalMenuId'', FormText (js ''gid://shopify/Menu/1'')),
           (js ''newMenuTitle'', FormText (js ''  My  Main Menu!  ''))])) \<and>
   CreateMenu (js ''My  Main Menu!'') (js ''my-main-menu-k3x9qz'') (Arr [])
     \<in> set (snd (action demo_env
          [(js ''_action'', FormText (js ''importMenu'')),
           (js ''newImportMenuTitle'', FormText (js ''My  Main Menu!'')),
           (js ''menuFile'', FormFile 12 (js ''{\"items\":[]}''))])) \<and>
   js ''my-main-menu-k3x9qz'' =
     slug (toLowerCase demo_env) (js ''My  Main Menu!'') @ js ''-'' @ random_suffix demo_env \<and>
   slug (toLowerCase demo_env) (js ''My  Main Menu!'') = js ''my-main-menu''"
  using handle_is_slug_and_suffix [of "js ''My  Main Menu!''" "js ''my-main-menu-k3x9qz''"
      "Arr [home_clean]" demo_env
      "[(js ''_action'', FormText (js ''duplicateMenu'')),
        (js ''originalMenuId'', FormText (js ''gid://shopify/Menu/1'')),
        (js ''newMenuTitle'', FormText (js ''  My  Main Menu!  ''))]"]
    handle_is_slug_and_suffix [of "js ''My  Main Menu!''" "js ''my-main-menu-k3x9qz''"
      "Arr []" demo_env
      "[(js ''_action'', FormText (js ''importMenu'')),
        (js ''newImportMenuTitle'', FormText (js ''My  Main Menu!'')),
        (js ''menuFile'', FormFile 12 (js ''{\"items\":[]}''))]"]
  by (simp add: handler_defs demo_defs example_defs run_simps js_def)


subsection \<open>Trimming of the new title\<close>

text \<open>
  Claim C10. Both flows use the submitted title only after trimming it: two forms whose
  titles agree after trimming, and that agree elsewhere, give the same response and the
  same requests, and a title and its trimmed form agree after trimming. So a title of
  white space only is rejected with the response that a missing title gets, in each
  flow; and every menu creation sent carries the trimmed title, and the handle made
  from it.
\<close>

theorem title_is_trimmed:
  "((\<forall>k. k \<noteq> js ''newMenuTitle'' \<and> k \<noteq> js ''newImportMenuTitle'' \<longrightarrow>
         map_of fd1 k = map_of fd2 k) \<and>
    trimmed_text (map_of fd1 (js ''newMenuTitle'')) =
      trimmed_text (map_of fd2 (js ''newMenuTitle'')) \<and>
    trimmed_text (map_of fd1 (js ''newImportMenuTitle'')) =
      trimmed_text (map_of fd2 (js ''newImportMenuTitle''))
    \<longrightarrow> action e fd1 = action e fd2) \<and>
   trimmed_text (Some (FormText (trim t))) = trimmed_text (Some (FormText t)) \<and>
   (authenticate e = AuthAdmin True \<and>
    map_of fd (js ''_action'') = Some (FormText (js ''duplicateMenu'')) \<and>
    (map_of fd (js ''newMenuTitle'') = None \<or>
     (\<exists>w. map_of fd (js ''newMenuTitle'') = Some (FormText w) \<and> list_all is_space w))
    \<longrightarrow> action e fd = (Inr duplicate_form_error, [])) \<and>
   (authenticate e = AuthAdmin True \<and>
    map_of fd (js ''_action'') = Some (FormText (js ''importMenu'')) \<and>
    (map_of fd (js ''newImportMenuTitle'') = None \<or>
     (\<exists>w. map_of fd (js ''newImportMenuTitle'') = Some (FormText w) \<and> list_all is_space w))
    \<longrightarrow> action e fd = (Inr import_form_error, [])) \<and>
   (\<forall>title handle its. CreateMenu title handle its \<in> set (snd (action e fd)) \<longrightarrow>
      handle = newMenuHandle e title \<and>
      (map_of fd (js ''_action'') = Some (FormText (js ''duplicateMenu'')) \<and>
         trimmed_text (map_of fd (js ''newMenuTitle'')) = Some title \<or>
       map_of fd (js ''_action'') = Some (FormText (js ''importMenu'')) \<and>
         trimmed_text (map_of fd (js ''newImportMenuTitle'')) = Some title))"
proof (intro conjI allI impI)
  assume "(\<forall>k. k \<noteq> js ''newMenuTitle'' \<and> k \<noteq> js ''newImportMenuTitle'' \<longrightarrow>
         map_of fd1 k = map_of fd2 k) \<and>
    trimmed_text (map_of fd1 (js ''newMenuTitle'')) =
      trimmed_text (map_of fd2 (js ''newMenuTitle'')) \<and>
    trimmed_text (map_of fd1 (js ''newImportMenuTitle'')) =
      trimmed_text (map_of fd2 (js ''newImportMenuTitle''))"
  then show "action e fd1 = action e fd2"
    by (intro action_depends_on_trimmed_titles) simp_all
next
  show "trimmed_text (Some (FormText (trim t))) = trimmed_text (Some (FormText t))"
    by (simp add: trim_trim)
next
  assume "authenticate e = AuthAdmin True \<and>
    map_of fd (js ''_action'') = Some (FormText (js ''duplicateMenu'')) \<and>
    (map_of fd (js ''newMenuTitle'') = None \<or>
     (\<exists>w. map_of fd (js ''newMenuTitle'') = Some (FormText w) \<and> list_all is_space w))"
  then show "action e fd = (Inr duplicate_form_error, [])"
    by (intro duplicate_rejects) (auto simp: trim_all_space)
next
  assume "authenticate e = AuthAdmin True \<and>
    map_of fd (js ''_action'') = Some (FormText (js ''importMenu'')) \<and>
    (map_of fd (js ''newImportMenuTitle'') = None \<or>
     (\<exists>w. map_of fd (js ''newImportMenuTitle'') = Some (FormText w) \<and> list_all is_space w))"
  then show "action e fd = (Inr import_form_error, [])"
    by (intro import_rejects) (auto simp: trim_all_space)
next
  fix title handle its
  assume sent: "CreateMenu title handle its \<in> set (snd (action e fd))"
  from action_create [OF sent] show "handle = newMenuHandle e title" by simp
  from action_create [OF sent]
  show "map_of fd (js ''_action'') = Some (FormText (js ''duplicateMenu'')) \<and>
         trimmed_text (map_of fd (js ''newMenuTitle'')) = Some title \<or>
       map_of fd (js ''_action'') = Some (FormText (js ''importMenu'')) \<and>
         trimmed_text (map_of fd (js ''newImportMenuTitle'')) = Some title" by simp
qed


theorem title_is_trimmed_witness:
  "action demo_env
     [(js ''_action'', FormText (js ''duplicateMenu'')),
      (js ''originalMenuId'', FormText (js ''gid://shopify/Menu/1'')),
      (js ''newMenuTitle'', FormText (js ''  My  Main Menu!  ''))] =
   action demo_env
     [(js ''_action'', FormText (js ''duplicateMenu'')),
      (js ''originalMenuId'', FormText (js ''gid://shopify/Menu/1'')),
      (js ''newMenuTitle'', FormText (js ''My  Main Menu!''))] \<and>
   trim (js ''  My  Main Menu!  '') = js ''My  Main Menu!'' \<and>
   CreateMenu (js ''My  Main Menu!'') (js ''my-main-menu-k3x9qz'') (Arr [home_clean])
     \<in> set (snd (action demo_env
          [(js ''_action'', FormText (js ''duplicateMenu'')),
           (js ''originalMenuId'', FormText (js ''gid://shopify/Menu/1'')),
           (js ''newMenuTitle'', FormText (js ''  My  Main Menu!  ''))])) \<and>
   list_all is_space (js ''   '') \<and>
   action demo_env
     [(js ''_action'', FormText (js ''duplicateMenu'')),
      (js ''originalMenuId'', FormText (js ''gid://shopify/Menu/1'')),
      (js ''newMenuTitle'', FormText (js ''   ''))] = (Inr duplicate_form_error, []) \<and>
   action demo_env
     [(js ''_action'', FormText (js ''duplicateMenu'')),
      (js ''originalMenuId'', FormText (js ''gid://shopify/Menu/1''))] =
     (Inr duplicate_form_error, []) \<and>
   action demo_env
     [(js ''_action'', FormText (js ''importMenu'')),
      (js ''newImportMenuTitle'', FormText (js ''   '')),
      (js ''menuFile'', FormFile 12 (js ''{\"items\":[]}''))] = (Inr import_form_error, []) \<and>
   action demo_env
     [(js ''_action'', FormText (js ''importMenu'')),
      (js ''menuFile'', FormFile 12 (js ''{\"items\":[]}''))] = (Inr import_form_error, [])"
  using title_is_trimmed
    [of "[(js ''_action'', FormText (js ''duplicateMenu'')),
          (js ''originalMenuId'', FormText (js ''gid://shopify/Menu/1'')),
          (js ''newMenuTitle'', FormText (js ''  My  Main Menu!  ''))]"
        "[(js ''_action'', FormText (js ''duplicateMenu'')),
          (js ''originalMenuId'', FormText (js ''gid://shopify/Menu/1'')),
          (js ''newMenuTitle'', FormText (js ''My  Main Menu!''))]"
        demo_env "js ''  My  Main Menu!  ''"
        "[(js ''_action'', FormText (js ''duplicateMenu'')),
          (js ''originalMenuId'', FormText (js ''gid://shopify/Menu/1'')),
          (js ''newMenuTitle'', FormText (js ''   ''))]"]
    title_is_trimmed
    [where e = demo_env and fd =
       "[(js ''_action'', FormText (js ''importMenu'')),
         (js ''newImportMenuTitle'', FormText (js ''   '')),
         (js ''menuFile'', FormFile 12 (js ''{\"items\":[]}''))]"]
  by (simp add: handler_defs demo_defs example_defs run_simps js_def duplicate_form_error_def
      import_form_error_def)


subsection \<open>Missing form fields\<close>

text \<open>
  Claim C7, as amended. When a required form field is missing (duplicate flow: no
  original menu, or an empty new title; import flow: no title, or no file, a string
  instead of a file, or an empty file), the action sends no request to the Admin API,
  and for an authenticated request it returns the one validation error record of its
  flow. The field tag of that record is \<^verbatim>\<open>form\<close> in both flows, whichever field
  is missing.
\<close>

theorem missing_field_form_error:
  "(map_of fd (js ''_action'') = Some (FormText (js ''duplicateMenu'')) \<and>
    (form_falsy (map_of fd (js ''originalMenuId'')) \<or>
     trimmed_text (map_of fd (js ''newMenuTitle'')) \<in> {None, Some []})
    \<longrightarrow> snd (action e fd) = [] \<and>
        (authenticate e = AuthAdmin True \<longrightarrow> fst (action e fd) = Inr duplicate_form_error)) \<and>
   (map_of fd (js ''_action'') = Some (FormText (js ''importMenu'')) \<and>
    (trimmed_text (map_of fd (js ''newImportMenuTitle'')) \<in> {None, Some []} \<or>
     map_of fd (js ''menuFile'') = None \<or>
     (\<exists>s. map_of fd (js ''menuFile'') = Some (FormText s)) \<or>
     (\<exists>s. map_of fd (js ''menuFile'') = Some (FormFile 0 s)))
    \<longrightarrow> snd (action e fd) = [] \<and>
        (authenticate e = AuthAdmin True \<longrightarrow> fst (action e fd) = Inr import_form_error)) \<and>
   error_fields duplicate_form_error = [Arr [Str (js ''form'')]] \<and>
   error_fields import_form_error = [Arr [Str (js ''form'')]]"
proof (intro conjI impI)
  assume missing: "map_of fd (js ''_action'') = Some (FormText (js ''duplicateMenu'')) \<and>
    (form_falsy (map_of fd (js ''originalMenuId'')) \<or>
     trimmed_text (map_of fd (js ''newMenuTitle'')) \<in> {None, Some []})"
  then show "snd (action e fd) = []"
    by (auto simp: action_sent duplicateMenu_sent split: option.splits)
  assume "authenticate e = AuthAdmin True"
  with missing show "fst (action e fd) = Inr duplicate_form_error"
    by (simp add: duplicate_rejects)
next
  assume missing: "map_of fd (js ''_action'') = Some (FormText (js ''importMenu'')) \<and>
    (trimmed_text (map_of fd (js ''newImportMenuTitle'')) \<in> {None, Some []} \<or>
     map_of fd (js ''menuFile'') = None \<or>
     (\<exists>s. map_of fd (js ''menuFile'') = Some (FormText s)) \<or>
     (\<exists>s. map_of fd (js ''menuFile'') = Some (FormFile 0 s)))"
  then show "snd (action e fd) = []"
    by (auto simp: action_sent importMenu_sent split: option.splits form_value.splits)
  assume "authenticate e = AuthAdmin True"
  with missing show "fst (action e fd) = Inr import_form_error"
    by (simp add: import_rejects)
qed (simp_all add: error_fields_def duplicate_form_error_def import_form_error_def)

theorem missing_field_form_error_witness:
  "authenticate demo_env = AuthAdmin True \<and>
   action demo_env [(js ''_action'', FormText (js ''duplicateMenu'')),
                    (js ''originalMenuId'', FormText []),
                    (js ''newMenuTitle'', FormText (js ''Copy''))] =
     (Inr duplicate_form_error, []) \<and>
   action demo_env [(js ''_action'', FormText (js ''importMenu'')),
                    (js ''newImportMenuTitle'', FormText (js ''Imported''))] =
     (Inr import_form_error, []) \<and>
   action demo_env [(js ''_action'', FormText (js ''importMenu'')),
                    (js ''newImportMenuTitle'', FormText (js ''Imported'')),
                    (js ''menuFile'', FormFile 0 [])] =
     (Inr import_form_error, []) \<and>
   action demo_env [(js ''_action'', FormText (js ''importMenu'')),
                    (js ''menuFile'', FormFile 12 (js ''{\"items\":[]}''))] =
     (Inr import_form_error, []) \<and>
   error_fields import_form_error = [Arr [Str (js ''form'')]]"
  using missing_field_form_error
    [where e = demo_env and fd = "[(js ''_action'', FormText (js ''duplicateMenu'')),
                    (js ''originalMenuId'', FormText []),
                    (js ''newMenuTitle'', FormText (js ''Copy''))]"]
    missing_field_form_error
    [where e = demo_env and fd = "[(js ''_action'', FormText (js ''importMenu'')),
                   (js ''newImportMenuTitle'', FormText (js ''Imported''))]"]
  by (simp add: handler_defs demo_defs js_def import_form_error_def duplicate_form_error_def
      error_fields_def Let_def)

text \<open>
  The claim as first stated has the field tag identify the offending form field. It
  does not: a duplicate request without the original menu and one without the new
  title get the same response, whose tag \<^verbatim>\<open>form\<close> names neither field.
\<close>

theorem missing_field_tag_counterexample:
  "map_of [(js ''_action'', FormText (js ''duplicateMenu'')),
           (js ''newMenuTitle'', FormText (js ''Copy''))] (js ''originalMenuId'') = None \<and>
   action demo_env [(js ''_action'', FormText (js ''duplicateMenu'')),
                    (js ''newMenuTitle'', FormText (js ''Copy''))] =
     (Inr duplicate_form_error, []) \<and>
   map_of [(js ''_action'', FormText (js ''duplicateMenu'')),
           (js ''originalMenuId'', FormText (js ''gid://shopify/Menu/1''))]
     (js ''newMenuTitle'') = None \<and>
   action demo_env [(js ''_action'', FormText (js ''duplicateMenu'')),
                    (js ''originalMenuId'', FormText (js ''gid://shopify/Menu/1''))] =
     (Inr duplicate_form_error, []) \<and>
   error_fields duplicate_form_error = [Arr [Str (js ''form'')]] \<and>
   js ''form'' \<noteq> js ''originalMenuId'' \<and> js ''form'' \<noteq> js ''newMenuTitle''"
  by (simp add: handler_defs demo_defs js_def duplicate_form_error_def error_fields_def Let_def)


subsection \<open>An uploaded file that is not a menu document\<close>

text \<open>
  Claim C6 says that a file whose content is not valid JSON, or parses to a document
  whose \<^verbatim>\<open>items\<close> is not an array, gets one error record tagged \<^verbatim>\<open>file\<close>, and
  that no menu creation is sent. The action does so (\<open>import_bad_file\<close>) unless the
  document is \<^verbatim>\<open>null\<close>: there \<^verbatim>\<open>importedData.items\<close> throws, the outer
  \<^verbatim>\<open>catch\<close> answers with the message of the \<^verbatim>\<open>TypeError\<close>, and the error record
  has no field tag. No menu creation is sent in that case either. The theorem runs the
  action on three uploads: the document \<^verbatim>\<open>null\<close>, a document without \<^verbatim>\<open>items\<close>,
  and a malformed text.
\<close>

theorem import_null_document_untagged:
  "action demo_env
     [(js ''_action'', FormText (js ''importMenu'')),
      (js ''newImportMenuTitle'', FormText (js ''Imported'')),
      (js ''menuFile'', FormFile 4 (js ''null''))] =
     (Inr (Obj [(js ''actionName'', Str (js ''importMenu'')),
                (js ''success'', Bool False),
                (js ''errors'',
                   Arr [Obj [(js ''message'', Str (cannot_read Null ''items''))]])]), []) \<and>
   error_fields
     (Obj [(js ''actionName'', Str (js ''importMenu'')),
           (js ''success'', Bool False),
           (js ''errors'',
              Arr [Obj [(js ''message'', Str (cannot_read Null ''items''))]])]) = [Undefined] \<and>
   action demo_env
     [(js ''_action'', FormText (js ''importMenu'')),
      (js ''newImportMenuTitle'', FormText (js ''Imported'')),
      (js ''menuFile'', FormFile 10 (js ''{\"menu\":5}''))] = (Inr items_not_found_error, []) \<and>
   action demo_env
     [(js ''_action'', FormText (js ''importMenu'')),
      (js ''newImportMenuTitle'', FormText (js ''Imported'')),
      (js ''menuFile'', FormFile 5 (js ''{oops''))] = (Inr invalid_json_error, []) \<and>
   error_fields items_not_found_error = [Arr [Str (js ''file'')]] \<and>
   error_fields invalid_json_error = [Arr [Str (js ''file'')]]"
  by (simp add: handler_defs demo_defs js_def error_fields_def
      items_not_found_error_def invalid_json_error_def Let_def)

end
